theory Spec2Isabelle
  imports Main "HOL-Library.Word"
begin

section \<open>Statuses and errors\<close>

text \<open>
  The planner reports failure through \<^verbatim>\<open>Status\<close> / \<^verbatim>\<open>StatusOr<T>\<close> values that
  the macros \<^verbatim>\<open>PL_ASSIGN_OR_RETURN\<close> and \<^verbatim>\<open>PL_RETURN_IF_ERROR\<close> hand back to the caller.
  A \<^verbatim>\<open>StatusOr<T>\<close> is the sum \<open>error + T\<close>; every early return of the source is a branch
  that yields \<open>Inl\<close>. Message templates are kept as written, with their \<^verbatim>\<open>$0\<close>, \<^verbatim>\<open>$1\<close>
  placeholders, next to the list of substituted arguments. A failed \<^verbatim>\<open>CHECK\<close> or
  \<^verbatim>\<open>DCHECK\<close> aborts the process; it is the value \<open>CheckFailure\<close>, which is not a status the
  caller can recover from. \<open>BadCast\<close> stands where a \<^verbatim>\<open>static_cast\<close> would be applied to a
  node of another kind (the preceding match excludes it), \<open>OutOfRange\<close> where a vector
  would be indexed past its end. Source locations (\<^verbatim>\<open>pypa::AstPtr\<close>) only decorate diagnostics
  and are left out.
\<close>

datatype IRNodeType =
    kString | kInt | kFloat | kColumn | kFunc | kList | kTuple
  | kMemorySource | kMap | kBlockingAgg | kGroupBy | kFilter | kLimit | kJoin | kDrop | kRange

datatype QLObjectType =
    DataframeType | ExprType | DictType | EndpointType | NoneType | OTelMetricDataType
  | ExporterType

datatype subst = SStr string | SInt int | SNat nat | SNode IRNodeType | SObj QLObjectType

datatype error =
    IRNodeError nat string "subst list"
  | ObjectError string "subst list"
  | WrongKind string IRNodeType subst
  | NoSuchNode nat
  | NodeStillReferenced nat
  | JoinLengthMismatch
  | UnknownJoinType string
  | BadCast
  | OutOfRange
  | CheckFailure

type_synonym 'a StatusOr = "error + 'a"

section \<open>IR nodes\<close>

datatype JoinType = INNER | LEFT_OUTER | FULL_OUTER

text \<open>
  Nodes refer to each other by identifier. Expression kinds come first, operator kinds
  after them. An operator keeps the identifier of each parent operator; \<open>ColumnIR\<close> keeps
  the column name and the index of the parent it reads from; \<open>FuncIR\<close> keeps its name and
  its evaluation arguments; \<open>FloatIR\<close> keeps the 64 bits of its double.
\<close>

datatype IRNode =
    StringIR string
  | IntIR int
  | FloatIR "64 word"
  | ColumnIR string int
  | FuncIR string "nat list"
  | ListIR "nat list"
  | TupleIR "nat list"
  | MemorySourceIR string
  | MapIR nat "(string \<times> nat) list" bool
  | BlockingAggIR nat "nat list" "(string \<times> nat) list"
  | GroupByIR nat "nat list"
  | FilterIR nat nat
  | LimitIR nat int
  | JoinIR "nat list" JoinType "(nat \<times> nat) list" "string list"
  | DropIR nat "string list"
  | RangeIR nat nat nat

fun type_of :: "IRNode \<Rightarrow> IRNodeType" where
  "type_of (StringIR _) = kString"
| "type_of (IntIR _) = kInt"
| "type_of (FloatIR _) = kFloat"
| "type_of (ColumnIR _ _) = kColumn"
| "type_of (FuncIR _ _) = kFunc"
| "type_of (ListIR _) = kList"
| "type_of (TupleIR _) = kTuple"
| "type_of (MemorySourceIR _) = kMemorySource"
| "type_of (MapIR _ _ _) = kMap"
| "type_of (BlockingAggIR _ _ _) = kBlockingAgg"
| "type_of (GroupByIR _ _) = kGroupBy"
| "type_of (FilterIR _ _) = kFilter"
| "type_of (LimitIR _ _) = kLimit"
| "type_of (JoinIR _ _ _ _) = kJoin"
| "type_of (DropIR _ _) = kDrop"
| "type_of (RangeIR _ _ _) = kRange"

text \<open>The expression nodes an expression or operator owns.\<close>

fun children_of :: "IRNode \<Rightarrow> nat list" where
  "children_of (FuncIR _ as) = as"
| "children_of (ListIR cs) = cs"
| "children_of (TupleIR cs) = cs"
| "children_of (MapIR _ es _) = map snd es"
| "children_of (BlockingAggIR _ gs es) = gs @ map snd es"
| "children_of (GroupByIR _ gs) = gs"
| "children_of (FilterIR _ e) = [e]"
| "children_of (JoinIR _ _ cs _) = map fst cs @ map snd cs"
| "children_of (RangeIR _ a b) = [a, b]"
| "children_of _ = []"

text \<open>The parent operators of an operator.\<close>

fun parents_of :: "IRNode \<Rightarrow> nat list" where
  "parents_of (MapIR p _ _) = [p]"
| "parents_of (BlockingAggIR p _ _) = [p]"
| "parents_of (GroupByIR p _) = [p]"
| "parents_of (FilterIR p _) = [p]"
| "parents_of (LimitIR p _) = [p]"
| "parents_of (JoinIR ps _ _ _) = ps"
| "parents_of (DropIR p _) = [p]"
| "parents_of (RangeIR p _ _) = [p]"
| "parents_of _ = []"

definition refs_of :: "IRNode \<Rightarrow> nat list" where
  "refs_of n = parents_of n @ children_of n"

section \<open>The IR graph store\<close>

text \<open>
  Modelled from the spec: the class \<^verbatim>\<open>IR\<close> (\<^verbatim>\<open>CreateNode\<close>, \<^verbatim>\<open>DeleteNode\<close>,
  \<^verbatim>\<open>DeleteNodeAndChildren\<close>, \<^verbatim>\<open>Get\<close>) is not among the source files. The spec (4.1 and
  the invariants of 3) gives it as a store that owns every node under a unique,
  never reused integer identifier. The store is an arena: slot \<open>i\<close> holds the node with
  identifier \<open>i\<close>, a new node takes the next slot, and a deleted node leaves its slot
  empty for good.

  The graph is mutated in place, so a function that changes it returns its status
  together with the graph it leaves behind, also when the status is an error.
\<close>

type_synonym IR = "IRNode option list"

type_synonym 'a Result = "'a StatusOr \<times> IR"

definition Get :: "IR \<Rightarrow> nat \<Rightarrow> IRNode option" where
  "Get g i = (if i < length g then g ! i else None)"

text \<open>
  Modelled from the spec: \<^verbatim>\<open>CreateNode<Kind>\<close> of a kind without a constructor-level
  check always succeeds and returns the new node.
\<close>

definition CreateNode :: "IR \<Rightarrow> IRNode \<Rightarrow> nat Result" where
  "CreateNode g n = (Inr (length g), g @ [Some n])"

definition referenced :: "IR \<Rightarrow> nat \<Rightarrow> bool" where
  "referenced g i = list_ex (\<lambda>s. case s of None \<Rightarrow> False | Some n \<Rightarrow> i \<in> set (refs_of n)) g"

text \<open>
  Modelled from the spec: \<^verbatim>\<open>DeleteNode(id)\<close> fails on an identifier that names no node
  and on a node that another node still refers to.
\<close>

definition DeleteNode :: "IR \<Rightarrow> nat \<Rightarrow> unit Result" where
  "DeleteNode g i =
     (case Get g i of
        None \<Rightarrow> (Inl (NoSuchNode i), g)
      | Some _ \<Rightarrow>
          if referenced g i then (Inl (NodeStillReferenced i), g)
          else (Inr (), g[i := None]))"

text \<open>
  Modelled from the spec: \<^verbatim>\<open>DeleteNodeAndChildren(id)\<close> deletes the node and then,
  recursively, the expression subtree it owns. Each single deletion is a \<^verbatim>\<open>DeleteNode\<close>,
  so a node of the subtree that something outside still refers to (or that was reached
  before) stops the deletion with that error. The recursion is a work list of pending
  identifiers; every step empties one slot.
\<close>

function DeleteNodesAndChildren :: "IR \<Rightarrow> nat list \<Rightarrow> unit Result" where
  "DeleteNodesAndChildren g [] = (Inr (), g)"
| "DeleteNodesAndChildren g (i # pending) =
     (case Get g i of
        None \<Rightarrow> (Inl (NoSuchNode i), g)
      | Some n \<Rightarrow>
          if referenced g i then (Inl (NodeStillReferenced i), g)
          else DeleteNodesAndChildren (g[i := None]) (remdups (children_of n) @ pending))"
  by pat_completeness auto
termination
proof (relation "measure (\<lambda>(g, w). length (filter (\<lambda>s. s \<noteq> None) g))")
  show "wf (measure (\<lambda>(g, w). length (filter (\<lambda>s. s \<noteq> None) g)))"
    by simp
next
  fix g :: IR and i :: nat and pending :: "nat list" and n :: IRNode
  assume "Get g i = Some n"
  then have lt: "i < length g" and at: "g ! i = Some n"
    by (simp_all add: Get_def split: if_splits)
  have g: "g = take i g @ Some n # drop (Suc i) g"
    using lt at by (metis id_take_nth_drop)
  have upd: "g[i := None] = take i g @ None # drop (Suc i) g"
    using lt by (rule upd_conv_take_nth_drop)
  have "length (filter (\<lambda>s. s \<noteq> None) (g[i := None]))
      < length (filter (\<lambda>s. s \<noteq> None) (take i g @ Some n # drop (Suc i) g))"
    unfolding upd by simp
  with g have "length (filter (\<lambda>s. s \<noteq> None) (g[i := None]))
      < length (filter (\<lambda>s. s \<noteq> None) g)"
    by simp
  then show "((g[i := None], remdups (children_of n) @ pending), (g, i # pending))
      \<in> measure (\<lambda>(g, w). length (filter (\<lambda>s. s \<noteq> None) g))"
    by simp
qed

definition DeleteNodeAndChildren :: "IR \<Rightarrow> nat \<Rightarrow> unit Result" where
  "DeleteNodeAndChildren g i = DeleteNodesAndChildren g [i]"

text \<open>
  Modelled from the spec: \<^verbatim>\<open>FuncIR::AddArg\<close> splices one more expression at the end of
  the function's evaluation arguments.
\<close>

definition AddArg :: "IR \<Rightarrow> nat \<Rightarrow> nat \<Rightarrow> unit Result" where
  "AddArg g func arg =
     (case Get g func of
        None \<Rightarrow> (Inl (NoSuchNode func), g)
      | Some (FuncIR name as) \<Rightarrow> (Inr (), g[func := Some (FuncIR name (as @ [arg]))])
      | Some _ \<Rightarrow> (Inl BadCast, g))"

text \<open>
  Modelled from the spec: the constructor check of \<^verbatim>\<open>CreateNode<JoinIR>\<close>. The join
  type name must be a known one, \<open>left_on\<close> and \<open>right_on\<close> must have the same number of
  columns, and the equality conditions pair them off in order. The table from join
  type names to \<open>JoinType\<close> is not among the source files and is the parameter \<open>join_types\<close>.
\<close>

definition CreateNode_JoinIR ::
    "(string \<Rightarrow> JoinType option) \<Rightarrow> IR \<Rightarrow> nat list \<Rightarrow> string \<Rightarrow> nat list \<Rightarrow> nat list \<Rightarrow> string list
      \<Rightarrow> nat Result" where
  "CreateNode_JoinIR join_types g parents how_type left_on_cols right_on_cols suffix_strs =
     (if length left_on_cols \<noteq> length right_on_cols then (Inl JoinLengthMismatch, g)
      else (case join_types how_type of
              None \<Rightarrow> (Inl (UnknownJoinType how_type), g)
            | Some t \<Rightarrow>
                CreateNode g (JoinIR parents t (zip left_on_cols right_on_cols) suffix_strs)))"

section \<open>Matching\<close>

text \<open>
  Modelled from the spec: the pattern library of 4.2 (\<^verbatim>\<open>Match\<close> with \<^verbatim>\<open>String()\<close>,
  \<^verbatim>\<open>Int()\<close>, \<^verbatim>\<open>List()\<close>, \<^verbatim>\<open>Tuple()\<close>, \<^verbatim>\<open>Func()\<close>, \<^verbatim>\<open>Operator()\<close>,
  \<^verbatim>\<open>Expression()\<close>, \<^verbatim>\<open>ListWithChildren\<close>, \<^verbatim>\<open>CollectionWithChildren\<close>) classifies a node
  by its kind; the combinators also ask every child to match.
\<close>

definition IsString :: "IRNode \<Rightarrow> bool" where
  "IsString n = (type_of n = kString)"

definition IsInt :: "IRNode \<Rightarrow> bool" where
  "IsInt n = (type_of n = kInt)"

definition IsList :: "IRNode \<Rightarrow> bool" where
  "IsList n = (type_of n = kList)"

definition IsTuple :: "IRNode \<Rightarrow> bool" where
  "IsTuple n = (type_of n = kTuple)"

definition IsFunc :: "IRNode \<Rightarrow> bool" where
  "IsFunc n = (type_of n = kFunc)"

definition IsExpression :: "IRNode \<Rightarrow> bool" where
  "IsExpression n = (type_of n \<in> {kString, kInt, kFloat, kColumn, kFunc, kList, kTuple})"

definition IsOperator :: "IRNode \<Rightarrow> bool" where
  "IsOperator n = (\<not> IsExpression n)"

definition ListWithChildren :: "IR \<Rightarrow> (IRNode \<Rightarrow> bool) \<Rightarrow> IRNode \<Rightarrow> bool" where
  "ListWithChildren g p n =
     (case n of
        ListIR cs \<Rightarrow> list_all (\<lambda>c. case Get g c of None \<Rightarrow> False | Some m \<Rightarrow> p m) cs
      | _ \<Rightarrow> False)"

definition CollectionWithChildren :: "IR \<Rightarrow> (IRNode \<Rightarrow> bool) \<Rightarrow> IRNode \<Rightarrow> bool" where
  "CollectionWithChildren g p n =
     (case n of
        ListIR cs \<Rightarrow> list_all (\<lambda>c. case Get g c of None \<Rightarrow> False | Some m \<Rightarrow> p m) cs
      | TupleIR cs \<Rightarrow> list_all (\<lambda>c. case Get g c of None \<Rightarrow> False | Some m \<Rightarrow> p m) cs
      | _ \<Rightarrow> False)"

text \<open>
  Modelled from the spec: \<^verbatim>\<open>ParseStringsFromCollection\<close> reads the strings of a
  collection's children in order; a child of another kind is a wrong-kind error. It
  does not change the graph.
\<close>

fun ParseStringsFromCollection :: "IR \<Rightarrow> nat list \<Rightarrow> string list StatusOr" where
  "ParseStringsFromCollection g [] = Inr []"
| "ParseStringsFromCollection g (c # cs) =
     (case Get g c of
        None \<Rightarrow> Inl (NoSuchNode c)
      | Some (StringIR s) \<Rightarrow>
          (case ParseStringsFromCollection g cs of
             Inl e \<Rightarrow> Inl e
           | Inr ss \<Rightarrow> Inr (s # ss))
      | Some n \<Rightarrow> Inl (WrongKind ''collection'' kString (SNode (type_of n))))"

section \<open>Dataframe values and parsed arguments\<close>

text \<open>
  A handler of \<^verbatim>\<open>Dataframe\<close> receives the dataframe (its current operator \<^verbatim>\<open>df->op()\<close>
  in the graph \<^verbatim>\<open>df->graph()\<close>) and the \<^verbatim>\<open>ParsedArgs\<close>. \<^verbatim>\<open>GetArg\<close> never returns a
  null pointer, so the named arguments are a total function to node identifiers; the
  keyword arguments are the ordered name/node pairs of \<^verbatim>\<open>kwargs()\<close>. A node pointer is
  an identifier, read through the graph where the source dereferences it; an identifier
  that names no node is the error \<open>NoSuchNode\<close>. A handler answers with the new
  \<^verbatim>\<open>Dataframe\<close>, which wraps the operator it created.
\<close>

record ParsedArgs =
  GetArg :: "string \<Rightarrow> nat"
  kwargs :: "(string \<times> nat) list"

datatype Dataframe = Dataframe (op: nat)

section \<open>LimitHandler\<close>

definition LimitHandler_Eval :: "IR \<Rightarrow> Dataframe \<Rightarrow> ParsedArgs \<Rightarrow> Dataframe Result" where
  "LimitHandler_Eval g df args =
     (let rows_node = GetArg args ''n'' in
      (case Get g rows_node of
        None \<Rightarrow> (Inl (NoSuchNode rows_node), g)
      | Some n \<Rightarrow>
          if \<not> IsInt n then (Inl (IRNodeError rows_node '''n' must be an int'' []), g)
          else (case n of
                  IntIR limit_value \<Rightarrow>
                    (case CreateNode g (LimitIR (op df) limit_value) of
                       (Inl e, g1) \<Rightarrow> (Inl e, g1)
                     | (Inr limit_op, g1) \<Rightarrow>
                         (case DeleteNode g1 rows_node of
                            (Inl e, g2) \<Rightarrow> (Inl e, g2)
                          | (Inr _, g2) \<Rightarrow> (Inr (Dataframe limit_op), g2)))
                | _ \<Rightarrow> (Inl BadCast, g))))"

section \<open>JoinHandler\<close>

text \<open>
  The loop of \<^verbatim>\<open>ProcessCols\<close> over the children of a list of strings: one new column per
  child, in order, all at the given parent index.
\<close>

fun ProcessCols_children :: "IR \<Rightarrow> nat list \<Rightarrow> int \<Rightarrow> nat list Result" where
  "ProcessCols_children graph [] parent_index = (Inr [], graph)"
| "ProcessCols_children graph (node # rest) parent_index =
     (case Get graph node of
        Some (StringIR str) \<Rightarrow>
          (case CreateNode graph (ColumnIR str parent_index) of
             (Inl e, graph1) \<Rightarrow> (Inl e, graph1)
           | (Inr col, graph1) \<Rightarrow>
               (case ProcessCols_children graph1 rest parent_index of
                  (Inl e, graph2) \<Rightarrow> (Inl e, graph2)
                | (Inr columns, graph2) \<Rightarrow> (Inr (col # columns), graph2)))
      | _ \<Rightarrow> (Inl BadCast, graph))"

definition ProcessCols :: "IR \<Rightarrow> nat \<Rightarrow> string \<Rightarrow> int \<Rightarrow> nat list Result" where
  "ProcessCols graph node arg_name parent_index =
     (case Get graph node of
        None \<Rightarrow> (Inl (NoSuchNode node), graph)
      | Some n \<Rightarrow>
          if ListWithChildren graph IsString n then
            ProcessCols_children graph (children_of n) parent_index
          else if \<not> IsString n then
            (Inl (IRNodeError node '''$0' must be a label or a list of labels'' [SStr arg_name]),
             graph)
          else (case n of
                  StringIR str \<Rightarrow>
                    (case CreateNode graph (ColumnIR str parent_index) of
                       (Inl e, graph1) \<Rightarrow> (Inl e, graph1)
                     | (Inr col, graph1) \<Rightarrow> (Inr [col], graph1))
                | _ \<Rightarrow> (Inl BadCast, graph)))"

definition JoinHandler_Eval ::
    "(string \<Rightarrow> JoinType option) \<Rightarrow> IR \<Rightarrow> Dataframe \<Rightarrow> ParsedArgs \<Rightarrow> Dataframe Result" where
  "JoinHandler_Eval join_types g df args =
     (let right_node = GetArg args ''right'';
          how_node = GetArg args ''how'';
          left_on_node = GetArg args ''left_on'';
          right_on_node = GetArg args ''right_on'';
          suffixes_node = GetArg args ''suffixes''
      in
      (case Get g right_node of
         None \<Rightarrow> (Inl (NoSuchNode right_node), g)
       | Some rn \<Rightarrow>
      if \<not> IsOperator rn then
        (Inl (IRNodeError right_node '''right' must be an operator, got $0''
           [SNode (type_of rn)]), g)
      else
      (case Get g how_node of
         None \<Rightarrow> (Inl (NoSuchNode how_node), g)
       | Some hn \<Rightarrow>
      if \<not> IsString hn then
        (Inl (IRNodeError how_node '''how' must be a string, got $0'' [SNode (type_of hn)]), g)
      else
      (case hn of
         StringIR how_type \<Rightarrow>
      (case ProcessCols g left_on_node ''left_on'' 0 of
         (Inl e, g1) \<Rightarrow> (Inl e, g1)
       | (Inr left_on_cols, g1) \<Rightarrow>
      (case ProcessCols g1 right_on_node ''right_on'' 1 of
         (Inl e, g2) \<Rightarrow> (Inl e, g2)
       | (Inr right_on_cols, g2) \<Rightarrow>
      (case Get g2 suffixes_node of
         None \<Rightarrow> (Inl (NoSuchNode suffixes_node), g2)
       | Some sn \<Rightarrow>
      if \<not> CollectionWithChildren g2 IsString sn then
        (Inl (IRNodeError suffixes_node
           '''suffixes' must be a tuple with 2 strings for the left and right suffixes. Received $0''
           [SNode (type_of sn)]), g2)
      else
      (case ParseStringsFromCollection g2 (children_of sn) of
         Inl e \<Rightarrow> (Inl e, g2)
       | Inr suffix_strs \<Rightarrow>
      if length suffix_strs \<noteq> 2 then
        (Inl (IRNodeError suffixes_node
           '''suffixes' must be a tuple with 2 elements. Received $0''
           [SNat (length suffix_strs)]), g2)
      else
      (case CreateNode_JoinIR join_types g2 [op df, right_node] how_type
             left_on_cols right_on_cols suffix_strs of
         (Inl e, g3) \<Rightarrow> (Inl e, g3)
       | (Inr join_op, g3) \<Rightarrow> (Inr (Dataframe join_op), g3))))))
       | _ \<Rightarrow> (Inl BadCast, g)))))"

section \<open>AggHandler\<close>

text \<open>
  The method names \<^verbatim>\<open>kBlockingAggOpId\<close> and \<^verbatim>\<open>kDropOpId\<close> are declared in the header; the
  constructor of \<^verbatim>\<open>Dataframe\<close> registers them for the Python methods \<^verbatim>\<open>agg\<close> and \<^verbatim>\<open>drop\<close>.
\<close>

definition kBlockingAggOpId :: string where
  "kBlockingAggOpId = ''agg''"

definition kDropOpId :: string where
  "kDropOpId = ''drop''"

text \<open>
  \<^verbatim>\<open>DCHECK_EQ(tuple->children().size(), 2UL)\<close> is the first statement of
  \<^verbatim>\<open>ParseNameTuple\<close>: a tuple of any other size aborts (a build without \<^verbatim>\<open>DCHECK\<close> would go
  on to read \<^verbatim>\<open>children()[0]\<close> and \<^verbatim>\<open>children()[1]\<close>).
\<close>

definition ParseNameTuple :: "IR \<Rightarrow> nat \<Rightarrow> nat Result" where
  "ParseNameTuple ir tuple =
     (case Get ir tuple of
        None \<Rightarrow> (Inl (NoSuchNode tuple), ir)
      | Some (TupleIR children) \<Rightarrow>
          if length children \<noteq> 2 then (Inl CheckFailure, ir)
          else
          (let childone = children ! 0; childtwo = children ! 1 in
          (case Get ir childone of
             None \<Rightarrow> (Inl (NoSuchNode childone), ir)
           | Some n1 \<Rightarrow>
          if \<not> IsString n1 then
            (Inl (IRNodeError childone
               (''Expected 'str' for first tuple argument. Received '$0'' @ [CHR 0x27])
               [SNode (type_of n1)]), ir)
          else
          (case Get ir childtwo of
             None \<Rightarrow> (Inl (NoSuchNode childtwo), ir)
           | Some n2 \<Rightarrow>
          if \<not> IsFunc n2 then
            (Inl (IRNodeError childtwo
               (''Expected 'func' for second tuple argument. Received '$0'' @ [CHR 0x27])
               [SNode (type_of n2)]), ir)
          else
          (case n1 of
             StringIR argcol_name \<Rightarrow>
          (case n2 of
             FuncIR fname fargs \<Rightarrow>
          if length fargs \<noteq> 0 then
            (Inl (IRNodeError childtwo ''Unexpected aggregate function'' []), ir)
          else
          (case CreateNode ir (ColumnIR argcol_name 0) of
             (Inl e, ir1) \<Rightarrow> (Inl e, ir1)
           | (Inr argcol, ir1) \<Rightarrow>
          (case AddArg ir1 childtwo argcol of
             (Inl e, ir2) \<Rightarrow> (Inl e, ir2)
           | (Inr _, ir2) \<Rightarrow>
          (case DeleteNode ir2 tuple of
             (Inl e, ir3) \<Rightarrow> (Inl e, ir3)
           | (Inr _, ir3) \<Rightarrow> (Inr childtwo, ir3))))
           | _ \<Rightarrow> (Inl BadCast, ir))
           | _ \<Rightarrow> (Inl BadCast, ir)))))
      | Some _ \<Rightarrow> (Inl BadCast, ir))"

text \<open>The loop of \<^verbatim>\<open>AggHandler::Eval\<close> over \<^verbatim>\<open>args.kwargs()\<close>.\<close>

fun AggHandler_kwargs ::
    "IR \<Rightarrow> (string \<times> nat) list \<Rightarrow> (string \<times> nat) list \<Rightarrow> (string \<times> nat) list Result" where
  "AggHandler_kwargs g [] aggregate_expressions = (Inr aggregate_expressions, g)"
| "AggHandler_kwargs g ((name, expr) # rest) aggregate_expressions =
     (case Get g expr of
        None \<Rightarrow> (Inl (NoSuchNode expr), g)
      | Some n \<Rightarrow>
          if \<not> IsTuple n then
            (Inl (IRNodeError expr ''Expected '$0' kwarg argument to be a tuple, not $1''
                    [SStr kBlockingAggOpId, SNode (type_of n)]), g)
          else
          (case ParseNameTuple g expr of
             (Inl e, g1) \<Rightarrow> (Inl e, g1)
           | (Inr parsed_expr, g1) \<Rightarrow>
               AggHandler_kwargs g1 rest (aggregate_expressions @ [(name, parsed_expr)])))"

definition AggHandler_Eval :: "IR \<Rightarrow> Dataframe \<Rightarrow> ParsedArgs \<Rightarrow> Dataframe Result" where
  "AggHandler_Eval g df args =
     (case AggHandler_kwargs g (kwargs args) [] of
        (Inl e, g1) \<Rightarrow> (Inl e, g1)
      | (Inr aggregate_expressions, g1) \<Rightarrow>
          (case CreateNode g1 (BlockingAggIR (op df) [] aggregate_expressions) of
             (Inl e, g2) \<Rightarrow> (Inl e, g2)
           | (Inr agg_op, g2) \<Rightarrow> (Inr (Dataframe agg_op), g2)))"

section \<open>DropHandler\<close>

definition DropHandler_Eval :: "IR \<Rightarrow> Dataframe \<Rightarrow> ParsedArgs \<Rightarrow> Dataframe Result" where
  "DropHandler_Eval g df args =
     (let columns_arg = GetArg args ''columns'' in
      (case Get g columns_arg of
         None \<Rightarrow> (Inl (NoSuchNode columns_arg), g)
       | Some n \<Rightarrow>
      if \<not> IsList n then
        (Inl (IRNodeError columns_arg
                ''Expected '$0' kwarg argument 'columns' to be a list, not $1''
                [SStr kDropOpId, SNode (type_of n)]), g)
      else
      (case ParseStringsFromCollection g (children_of n) of
         Inl e \<Rightarrow> (Inl e, g)
       | Inr columns \<Rightarrow>
      (case CreateNode g (DropIR (op df) columns) of
         (Inl e, g1) \<Rightarrow> (Inl e, g1)
       | (Inr drop_op, g1) \<Rightarrow>
      (case DeleteNodeAndChildren g1 columns_arg of
         (Inl e, g2) \<Rightarrow> (Inl e, g2)
       | (Inr _, g2) \<Rightarrow> (Inr (Dataframe drop_op), g2))))))"

section \<open>SubscriptHandler\<close>

definition SubscriptHandler_EvalFilter :: "IR \<Rightarrow> Dataframe \<Rightarrow> nat \<Rightarrow> Dataframe Result" where
  "SubscriptHandler_EvalFilter g df expr =
     (case CreateNode g (FilterIR (op df) expr) of
        (Inl e, g1) \<Rightarrow> (Inl e, g1)
      | (Inr filter_op, g1) \<Rightarrow> (Inr (Dataframe filter_op), g1))"

text \<open>The loop of \<^verbatim>\<open>EvalKeep\<close> over the column names.\<close>

fun EvalKeep_columns ::
    "IR \<Rightarrow> string list \<Rightarrow> (string \<times> nat) list \<Rightarrow> (string \<times> nat) list Result" where
  "EvalKeep_columns g [] keep_exprs = (Inr keep_exprs, g)"
| "EvalKeep_columns g (col_name # rest) keep_exprs =
     (case CreateNode g (ColumnIR col_name 0) of
        (Inl e, g1) \<Rightarrow> (Inl e, g1)
      | (Inr keep_col, g1) \<Rightarrow> EvalKeep_columns g1 rest (keep_exprs @ [(col_name, keep_col)]))"

definition SubscriptHandler_EvalKeep :: "IR \<Rightarrow> Dataframe \<Rightarrow> nat list \<Rightarrow> Dataframe Result" where
  "SubscriptHandler_EvalKeep g df key_children =
     (case ParseStringsFromCollection g key_children of
        Inl e \<Rightarrow> (Inl e, g)
      | Inr keep_column_names \<Rightarrow>
     (case EvalKeep_columns g keep_column_names [] of
        (Inl e, g1) \<Rightarrow> (Inl e, g1)
      | (Inr keep_exprs, g1) \<Rightarrow>
     (case CreateNode g1 (MapIR (op df) keep_exprs False) of
        (Inl e, g2) \<Rightarrow> (Inl e, g2)
      | (Inr map_op, g2) \<Rightarrow> (Inr (Dataframe map_op), g2))))"

definition SubscriptHandler_Eval :: "IR \<Rightarrow> Dataframe \<Rightarrow> ParsedArgs \<Rightarrow> Dataframe Result" where
  "SubscriptHandler_Eval g df args =
     (let key = GetArg args ''key'' in
      (case Get g key of
         None \<Rightarrow> (Inl (NoSuchNode key), g)
       | Some n \<Rightarrow>
           if \<not> IsExpression n then
             (Inl (IRNodeError key
                     ''subscript argument must have an expression. '$0' not allowed''
                     [SNode (type_of n)]), g)
           else if IsList n then SubscriptHandler_EvalKeep g df (children_of n)
           else SubscriptHandler_EvalFilter g df key))"

section \<open>OTel payloads\<close>

text \<open>
  The messages of plan.proto that the OTel builders fill. A proto3 enum field holds the
  number of its enum value, so \<open>span_kind\<close> is that number; a \<^verbatim>\<open>oneof\<close> is a datatype.
\<close>

definition SPAN_KIND_UNSPECIFIED :: int where
  "SPAN_KIND_UNSPECIFIED = 0"

definition SPAN_KIND_INTERNAL :: int where
  "SPAN_KIND_INTERNAL = 1"

definition SPAN_KIND_SERVER :: int where
  "SPAN_KIND_SERVER = 2"

text \<open>
  Modelled from the spec: \<^verbatim>\<open>OTelSpanKind_IsValid\<close> is generated code (plan.pb.h is not
  among the source files). A span kind is valid when it is one of the values that the
  enum \<^verbatim>\<open>OTelSpanKind\<close> of plan.proto declares. The generated function is declared
  \<^verbatim>\<open>bool OTelSpanKind_IsValid(int value)\<close>: its parameter is a 32-bit \<^verbatim>\<open>int\<close>.
\<close>

definition OTelSpanKind_IsValid :: "int \<Rightarrow> bool" where
  "OTelSpanKind_IsValid v =
     (v = SPAN_KIND_UNSPECIFIED \<or> v = SPAN_KIND_INTERNAL \<or> v = SPAN_KIND_SERVER)"

text \<open>
  \<^verbatim>\<open>IntIR::val()\<close> is an \<^verbatim>\<open>int64_t\<close>. Where the span builder hands it to
  \<^verbatim>\<open>OTelSpanKind_IsValid(int)\<close> and where it casts it to the enum (whose underlying type
  is \<^verbatim>\<open>int\<close>), the value is converted to 32 bits: it is reduced modulo \<open>2 ^ 32\<close> into
  the range from \<open>- (2 ^ 31)\<close> up to, not including, \<open>2 ^ 31\<close>.
\<close>

definition int64_to_int :: "int \<Rightarrow> int" where
  "int64_to_int v = (v + 2 ^ 31) mod 2 ^ 32 - 2 ^ 31"

datatype OTelAttribute = OTelAttribute string string

record OTelSpan =
  span_name :: string
  span_attributes :: "OTelAttribute list"
  trace_id_column :: string
  span_id_column :: string
  parent_span_id_column :: string
  span_start_time_unix_nano_column :: string
  end_time_unix_nano_column :: string
  span_kind :: int
  status_column :: string

datatype ValueAtQuantile = ValueAtQuantile "64 word" string

record OTelMetricSummary =
  count_column :: string
  sum_column :: string
  quantile_values :: "ValueAtQuantile list"

datatype OTelMetricDataCase = DATA_NOT_SET | Gauge string | Summary OTelMetricSummary

record OTelMetric =
  metric_name :: string
  description :: string
  metric_attributes :: "OTelAttribute list"
  data :: OTelMetricDataCase
  start_time_unix_nano_column :: string
  time_unix_nano_column :: string

record OTelEndpointConfig =
  url :: string
  endpoint_attributes :: "string \<rightharpoonup> string"

datatype DataConfigCase = DATA_CONFIG_NOT_SET | Span OTelSpan | Metric OTelMetric

record OTelExportSinkOperator =
  endpoint_config :: OTelEndpointConfig
  data_config :: DataConfigCase

datatype DataType = STRING | INT64 | FLOAT64 | TIME64NS

text \<open>
  An expected column: the source node, the name of its role, the column name, and the
  data types the column may have.
\<close>

datatype ExpectedColumn = ExpectedColumn nat string string "DataType list"

section \<open>QLObjects\<close>

text \<open>
  The values the OTel builders read and return. An \<open>ExprObject\<close> wraps an IR node; a
  \<open>DictObject\<close> keeps its keys and its values in two vectors; an \<open>ExporterObject\<close> keeps
  what the callback of \<^verbatim>\<open>Exporter::Create\<close> captures (the payload and the expected
  columns). The arguments of a builder are a total function from names to objects. The
  builders read the graph and do not change it.
\<close>

datatype QLObject =
    ExprObject nat
  | DictObject "QLObject list" "QLObject list"
  | EndpointConfigObject string "(string \<times> string) list"
  | NoneObject
  | OTelMetricDataObject OTelMetric "ExpectedColumn list"
  | ExporterObject OTelExportSinkOperator "ExpectedColumn list"

fun object_type :: "QLObject \<Rightarrow> QLObjectType" where
  "object_type (ExprObject _) = ExprType"
| "object_type (DictObject _ _) = DictType"
| "object_type (EndpointConfigObject _ _) = EndpointType"
| "object_type NoneObject = NoneType"
| "object_type (OTelMetricDataObject _ _) = OTelMetricDataType"
| "object_type (ExporterObject _ _) = ExporterType"

text \<open>
  Modelled from the spec: \<^verbatim>\<open>GetArgAs<T>\<close> is not among the source files. By 4.2 it hands
  out the node of an argument when the argument is an expression of kind \<open>T\<close>, and is a
  wrong-kind error (argument name, expected kind, actual kind) otherwise.
\<close>

definition GetArgAs_StringIR :: "IR \<Rightarrow> QLObject \<Rightarrow> string \<Rightarrow> (nat \<times> string) StatusOr" where
  "GetArgAs_StringIR g obj arg_name =
     (case obj of
        ExprObject i \<Rightarrow>
          (case Get g i of
             None \<Rightarrow> Inl (NoSuchNode i)
           | Some (StringIR s) \<Rightarrow> Inr (i, s)
           | Some n \<Rightarrow> Inl (WrongKind arg_name kString (SNode (type_of n))))
      | _ \<Rightarrow> Inl (WrongKind arg_name kString (SObj (object_type obj))))"

definition GetArgAs_IntIR :: "IR \<Rightarrow> QLObject \<Rightarrow> string \<Rightarrow> (nat \<times> int) StatusOr" where
  "GetArgAs_IntIR g obj arg_name =
     (case obj of
        ExprObject i \<Rightarrow>
          (case Get g i of
             None \<Rightarrow> Inl (NoSuchNode i)
           | Some (IntIR v) \<Rightarrow> Inr (i, v)
           | Some n \<Rightarrow> Inl (WrongKind arg_name kInt (SNode (type_of n))))
      | _ \<Rightarrow> Inl (WrongKind arg_name kInt (SObj (object_type obj))))"

definition GetArgAs_FloatIR :: "IR \<Rightarrow> QLObject \<Rightarrow> string \<Rightarrow> (nat \<times> 64 word) StatusOr" where
  "GetArgAs_FloatIR g obj arg_name =
     (case obj of
        ExprObject i \<Rightarrow>
          (case Get g i of
             None \<Rightarrow> Inl (NoSuchNode i)
           | Some (FloatIR v) \<Rightarrow> Inr (i, v)
           | Some n \<Rightarrow> Inl (WrongKind arg_name kFloat (SNode (type_of n))))
      | _ \<Rightarrow> Inl (WrongKind arg_name kFloat (SObj (object_type obj))))"

section \<open>OTel builders\<close>

definition GetArgAsString :: "IR \<Rightarrow> (string \<Rightarrow> QLObject) \<Rightarrow> string \<Rightarrow> string StatusOr" where
  "GetArgAsString g args arg_name =
     (case GetArgAs_StringIR g (args arg_name) arg_name of
        Inl e \<Rightarrow> Inl e
      | Inr (arg_ir, str) \<Rightarrow> Inr str)"

definition EndpointConfig_ToProto ::
    "string \<Rightarrow> (string \<times> string) list \<Rightarrow> OTelEndpointConfig \<Rightarrow> OTelEndpointConfig" where
  "EndpointConfig_ToProto the_url conn_attributes pb =
     fold (\<lambda>(name, value) pb. pb\<lparr>endpoint_attributes := (endpoint_attributes pb)(name \<mapsto> value)\<rparr>)
       conn_attributes (pb\<lparr>url := the_url\<rparr>)"

definition ParseEndpointConfig :: "QLObject \<Rightarrow> OTelEndpointConfig \<Rightarrow> OTelEndpointConfig StatusOr" where
  "ParseEndpointConfig endpoint pb =
     (case endpoint of
        EndpointConfigObject the_url conn_attributes \<Rightarrow>
          Inr (EndpointConfig_ToProto the_url conn_attributes pb)
      | _ \<Rightarrow>
          Inl (ObjectError ''expected Endpoint type for 'endpoint' arg, received $0''
                 [SObj (object_type endpoint)]))"

text \<open>
  The loop over the attribute dictionary, which \<^verbatim>\<open>OTelSpanDefinition\<close> and
  \<^verbatim>\<open>OTelMetricDefinition\<close> both spell out: for each key, in order, the key must be a
  string, then \<^verbatim>\<open>values[idx]\<close> must be a string; each pair adds an attribute and an
  expected column.
\<close>

fun attributes_loop ::
    "IR \<Rightarrow> QLObject list \<Rightarrow> QLObject list \<Rightarrow> (OTelAttribute list \<times> ExpectedColumn list) StatusOr" where
  "attributes_loop g [] vals = Inr ([], [])"
| "attributes_loop g (keyobj # keys) vals =
     (case GetArgAs_StringIR g keyobj ''attribute'' of
        Inl e \<Rightarrow> Inl e
      | Inr (key, key_str) \<Rightarrow>
     (case vals of
        [] \<Rightarrow> Inl OutOfRange
      | valobj # vals' \<Rightarrow>
     (case GetArgAs_StringIR g valobj ''attribute value column'' of
        Inl e \<Rightarrow> Inl e
      | Inr (val, val_str) \<Rightarrow>
     (case attributes_loop g keys vals' of
        Inl e \<Rightarrow> Inl e
      | Inr (attrs, columns) \<Rightarrow>
          Inr (OTelAttribute key_str val_str # attrs,
               ExpectedColumn val ''attribute'' val_str [STRING] # columns)))))"

definition default_endpoint_config :: OTelEndpointConfig where
  "default_endpoint_config = \<lparr>url = [], endpoint_attributes = Map.empty\<rparr>"

definition OTelSpanDefinition :: "IR \<Rightarrow> (string \<Rightarrow> QLObject) \<Rightarrow> QLObject StatusOr" where
  "OTelSpanDefinition g args =
     (case ParseEndpointConfig (args ''endpoint'') default_endpoint_config of
        Inl e \<Rightarrow> Inl e
      | Inr endpoint \<Rightarrow>
     (case GetArgAsString g args ''name'' of
        Inl e \<Rightarrow> Inl e
      | Inr name \<Rightarrow>
     (case GetArgAs_StringIR g (args ''span_id'') ''span_id'' of
        Inl e \<Rightarrow> Inl e
      | Inr (span_id_node, span_id_str) \<Rightarrow>
     (case GetArgAs_StringIR g (args ''parent_span_id'') ''parent_span_id'' of
        Inl e \<Rightarrow> Inl e
      | Inr (parent_span_id_node, parent_span_id_str) \<Rightarrow>
     (case GetArgAs_StringIR g (args ''trace_id'') ''trace_id'' of
        Inl e \<Rightarrow> Inl e
      | Inr (trace_id_node, trace_id_str) \<Rightarrow>
     (case GetArgAs_StringIR g (args ''status'') ''status'' of
        Inl e \<Rightarrow> Inl e
      | Inr (status_node, status_str) \<Rightarrow>
     (case GetArgAs_StringIR g (args ''start_time_unix_nano'') ''start_time_unix_nano'' of
        Inl e \<Rightarrow> Inl e
      | Inr (start_time_node, start_time_str) \<Rightarrow>
     (case GetArgAs_StringIR g (args ''end_time_unix_nano'') ''end_time_unix_nano'' of
        Inl e \<Rightarrow> Inl e
      | Inr (end_time_node, end_time_str) \<Rightarrow>
     (case GetArgAs_IntIR g (args ''kind'') ''kind'' of
        Inl e \<Rightarrow> Inl e
      | Inr (kind, kind_val) \<Rightarrow>
     if \<not> OTelSpanKind_IsValid (int64_to_int kind_val) then
       Inl (IRNodeError kind ''Kind value '$0' is not a valid option'' [SInt kind_val])
     else
     (case args ''attributes'' of
        DictObject keys vals \<Rightarrow>
          if length vals \<noteq> length keys then Inl CheckFailure
          else
          (case attributes_loop g keys vals of
             Inl e \<Rightarrow> Inl e
           | Inr (attrs, attr_columns) \<Rightarrow>
               Inr (ExporterObject
                 \<lparr>endpoint_config = endpoint,
                  data_config = Span
                    \<lparr>span_name = name,
                     span_attributes = attrs,
                     trace_id_column = trace_id_str,
                     span_id_column = span_id_str,
                     parent_span_id_column = parent_span_id_str,
                     span_start_time_unix_nano_column = start_time_str,
                     end_time_unix_nano_column = end_time_str,
                     span_kind = int64_to_int kind_val,
                     status_column = status_str\<rparr>\<rparr>
                 ([ExpectedColumn span_id_node ''span_id'' span_id_str [STRING],
                   ExpectedColumn parent_span_id_node ''parent_span_id'' parent_span_id_str
                     [STRING],
                   ExpectedColumn trace_id_node ''trace_id'' trace_id_str [STRING],
                   ExpectedColumn status_node ''status'' status_str [INT64],
                   ExpectedColumn start_time_node ''start_time_unix_nano''
                     start_time_str [TIME64NS],
                   ExpectedColumn end_time_node ''end_time_unix_nano''
                     end_time_str [TIME64NS]]
                  @ attr_columns)))
      | attributes \<Rightarrow>
          Inl (ObjectError ''Expected attributes to be a dictionary, received $0''
                 [SObj (object_type attributes)])))))))))))"

definition OTelMetricDefinition :: "IR \<Rightarrow> (string \<Rightarrow> QLObject) \<Rightarrow> QLObject StatusOr" where
  "OTelMetricDefinition g args =
     (case args ''data'' of
        OTelMetricDataObject summary_pb summary_columns \<Rightarrow>
     (case ParseEndpointConfig (args ''endpoint'') default_endpoint_config of
        Inl e \<Rightarrow> Inl e
      | Inr endpoint \<Rightarrow>
     (case GetArgAsString g args ''name'' of
        Inl e \<Rightarrow> Inl e
      | Inr name \<Rightarrow>
     (case GetArgAsString g args ''description'' of
        Inl e \<Rightarrow> Inl e
      | Inr descr \<Rightarrow>
     (case args ''attributes'' of
        DictObject keys vals \<Rightarrow>
          if length vals \<noteq> length keys then Inl CheckFailure
          else
          (case attributes_loop g keys vals of
             Inl e \<Rightarrow> Inl e
           | Inr (attrs, attr_columns) \<Rightarrow>
               Inr (ExporterObject
                 \<lparr>endpoint_config = endpoint,
                  data_config = Metric
                    (summary_pb\<lparr>metric_name := name, description := descr,
                       metric_attributes := metric_attributes summary_pb @ attrs\<rparr>)\<rparr>
                 (summary_columns @ attr_columns)))
      | attributes \<Rightarrow>
          Inl (ObjectError ''Expected attributes to be a dictionary, received $0''
                 [SObj (object_type attributes)])))))
      | other \<Rightarrow>
          Inl (ObjectError ''Expected an OTelMetricData type. Received $0''
                 [SObj (object_type other)]))"

text \<open>
  The loop of \<^verbatim>\<open>OTelSummaryDefinition\<close> over the quantile dictionary. The role name of a
  quantile column is the text of the double (\<^verbatim>\<open>absl::Substitute("$0", key->val())\<close>);
  the formatting of doubles is the parameter \<open>fmt\<close>.
\<close>

fun quantile_values_loop ::
    "(64 word \<Rightarrow> string) \<Rightarrow> IR \<Rightarrow> QLObject list \<Rightarrow> QLObject list
      \<Rightarrow> (ValueAtQuantile list \<times> ExpectedColumn list) StatusOr" where
  "quantile_values_loop fmt g [] vals = Inr ([], [])"
| "quantile_values_loop fmt g (keyobj # keys) vals =
     (case GetArgAs_FloatIR g keyobj ''quantile'' of
        Inl e \<Rightarrow> Inl e
      | Inr (key, key_val) \<Rightarrow>
     (case vals of
        [] \<Rightarrow> Inl OutOfRange
      | valobj # vals' \<Rightarrow>
     (case GetArgAs_StringIR g valobj ''quantile value column'' of
        Inl e \<Rightarrow> Inl e
      | Inr (val, val_str) \<Rightarrow>
     (case quantile_values_loop fmt g keys vals' of
        Inl e \<Rightarrow> Inl e
      | Inr (qvs, columns) \<Rightarrow>
          Inr (ValueAtQuantile key_val val_str # qvs,
               ExpectedColumn val (fmt key_val) val_str [FLOAT64] # columns)))))"

definition OTelSummaryDefinition ::
    "(64 word \<Rightarrow> string) \<Rightarrow> IR \<Rightarrow> (string \<Rightarrow> QLObject) \<Rightarrow> QLObject StatusOr" where
  "OTelSummaryDefinition fmt g args =
     (case GetArgAs_StringIR g (args ''count'') ''count'' of
        Inl e \<Rightarrow> Inl e
      | Inr (count_col, count_str) \<Rightarrow>
     (case GetArgAs_StringIR g (args ''sum'') ''sum'' of
        Inl e \<Rightarrow> Inl e
      | Inr (sum_col, sum_str) \<Rightarrow>
     (case args ''quantile_values'' of
        DictObject keys vals \<Rightarrow>
          if length vals \<noteq> length keys then Inl CheckFailure
          else
          (case quantile_values_loop fmt g keys vals of
             Inl e \<Rightarrow> Inl e
           | Inr (qvs, qv_columns) \<Rightarrow>
          (case GetArgAs_StringIR g (args ''start_time_unix_nano'') ''start_time_unix_nano'' of
             Inl e \<Rightarrow> Inl e
           | Inr (start_time_col, start_time_str) \<Rightarrow>
          (case GetArgAs_StringIR g (args ''time_unix_nano'') ''time_unix_nano'' of
             Inl e \<Rightarrow> Inl e
           | Inr (time_col, time_str) \<Rightarrow>
               Inr (OTelMetricDataObject
                 \<lparr>metric_name = [], description = [], metric_attributes = [],
                  data = Summary \<lparr>count_column = count_str, sum_column = sum_str,
                                  quantile_values = qvs\<rparr>,
                  start_time_unix_nano_column = start_time_str,
                  time_unix_nano_column = time_str\<rparr>
                 ([ExpectedColumn count_col ''count'' count_str [FLOAT64],
                   ExpectedColumn sum_col ''sum'' sum_str [FLOAT64]]
                  @ qv_columns
                  @ [ExpectedColumn start_time_col ''start_time_unix_nano'' start_time_str
                       [TIME64NS],
                     ExpectedColumn time_col ''time_unix_nano'' time_str [TIME64NS]])))))
      | qvs \<Rightarrow>
          Inl (ObjectError ''Expected quantile_values to be a dictionary, received $0''
                 [SObj (object_type qvs)]))))"

text \<open>
  The loop of \<^verbatim>\<open>EndpointConfigConstructor\<close> over the keys of the attribute dictionary.
  Nothing compares the sizes of the two vectors before it: with fewer values than keys
  \<^verbatim>\<open>values()[i]\<close> reads past the end of the vector, and values beyond the last key are
  never read.
\<close>

fun EndpointConfig_attributes ::
    "IR \<Rightarrow> QLObject list \<Rightarrow> QLObject list \<Rightarrow> (string \<times> string) list StatusOr" where
  "EndpointConfig_attributes g [] vals = Inr []"
| "EndpointConfig_attributes g (key # keys) vals =
     (case GetArgAs_StringIR g key ''attribute key'' of
        Inl e \<Rightarrow> Inl e
      | Inr (key_ir, key_str) \<Rightarrow>
     (case vals of
        [] \<Rightarrow> Inl OutOfRange
      | valobj # vals' \<Rightarrow>
     (case GetArgAs_StringIR g valobj ''attribute value'' of
        Inl e \<Rightarrow> Inl e
      | Inr (val_ir, val_str) \<Rightarrow>
     (case EndpointConfig_attributes g keys vals' of
        Inl e \<Rightarrow> Inl e
      | Inr attributes \<Rightarrow> Inr ((key_str, val_str) # attributes)))))"

definition EndpointConfigConstructor :: "IR \<Rightarrow> (string \<Rightarrow> QLObject) \<Rightarrow> QLObject StatusOr" where
  "EndpointConfigConstructor g args =
     (case GetArgAsString g args ''url'' of
        Inl e \<Rightarrow> Inl e
      | Inr the_url \<Rightarrow>
     (case args ''attributes'' of
        DictObject keys vals \<Rightarrow>
          (case EndpointConfig_attributes g keys vals of
             Inl e \<Rightarrow> Inl e
           | Inr attributes \<Rightarrow> Inr (EndpointConfigObject the_url attributes))
      | attr \<Rightarrow>
          Inl (ObjectError ''expected dict() for 'attributes' arg, received $0''
                 [SObj (object_type attr)])))"

section \<open>Shapes of arguments\<close>

text \<open>
  The vocabulary of the statements below. A node gives the labels \<open>names\<close> when it is a
  single string (one label) or a list whose children are strings (one label per child,
  in order). A node is a collection of two strings when it is a list or a tuple with
  exactly two children, both strings.
\<close>

definition is_labels :: "IR \<Rightarrow> nat \<Rightarrow> string list \<Rightarrow> bool" where
  "is_labels g node names =
     (case Get g node of
        Some (StringIR s) \<Rightarrow> names = [s]
      | Some (ListIR cs) \<Rightarrow> map (Get g) cs = map (\<lambda>s. Some (StringIR s)) names
      | _ \<Rightarrow> False)"

definition two_strings :: "IR \<Rightarrow> nat \<Rightarrow> bool" where
  "two_strings g node =
     (case Get g node of
        None \<Rightarrow> False
      | Some n \<Rightarrow>
          (IsList n \<or> IsTuple n) \<and> length (children_of n) = 2 \<and>
          list_all (\<lambda>c. case Get g c of None \<Rightarrow> False | Some m \<Rightarrow> IsString m) (children_of n))"

text \<open>
  An argument of an OTel builder is a string argument when it is an expression object
  over a string node.
\<close>

definition is_string_arg :: "IR \<Rightarrow> QLObject \<Rightarrow> bool" where
  "is_string_arg g obj =
     (case obj of
        ExprObject i \<Rightarrow> (case Get g i of Some n \<Rightarrow> IsString n | None \<Rightarrow> False)
      | _ \<Rightarrow> False)"

section \<open>What the Aggregate handler changes\<close>

text \<open>
  The vocabulary of the statements about \<^verbatim>\<open>AggHandler\<close>. From graph \<open>g\<close> to graph \<open>g'\<close> the
  keyword value \<open>tuple\<close> has been desugared into the function \<open>func\<close> when, in \<open>g\<close>, the
  tuple is the pair of a string and \<open>func\<close>, a function without arguments, and, in \<open>g'\<close>,
  the only argument of \<open>func\<close> is a Column created since (parent index 0, named by the
  string) and the tuple is gone.

  \<open>agg_frame g g'\<close> bounds what the handler may do to the other nodes: a node of \<open>g\<close>
  is kept as it is, or it was a tuple and is deleted, or it was a function without
  arguments and got one; every node created since is a Column at parent index 0.
\<close>

definition agg_desugared :: "IR \<Rightarrow> IR \<Rightarrow> nat \<Rightarrow> nat \<Rightarrow> bool" where
  "agg_desugared g g' tuple func =
     (\<exists>s col fname c.
        Get g tuple = Some (TupleIR [s, func]) \<and> Get g s = Some (StringIR col) \<and>
        Get g func = Some (FuncIR fname []) \<and>
        Get g' func = Some (FuncIR fname [c]) \<and> length g \<le> c \<and>
        Get g' c = Some (ColumnIR col 0) \<and> Get g' tuple = None)"

definition agg_frame :: "IR \<Rightarrow> IR \<Rightarrow> bool" where
  "agg_frame g g' =
     (length g \<le> length g' \<and>
      (\<forall>j<length g.
         Get g' j = Get g j \<or>
         (Get g' j = None \<and> (\<exists>cs. Get g j = Some (TupleIR cs))) \<or>
         (\<exists>fn c. Get g j = Some (FuncIR fn []) \<and> Get g' j = Some (FuncIR fn [c]))) \<and>
      (\<forall>j. length g \<le> j \<longrightarrow> j < length g' \<longrightarrow> (\<exists>col. Get g' j = Some (ColumnIR col 0))))"

text \<open>
  A keyword value \<open>tuple\<close> is a well-formed aggregate pair with the function \<open>func\<close> when
  it is a tuple of exactly two children, the first a string and the second \<open>func\<close>, a
  function without arguments.
\<close>

definition agg_pair :: "IR \<Rightarrow> nat \<Rightarrow> nat \<Rightarrow> bool" where
  "agg_pair g tuple func =
     (case Get g tuple of
        Some (TupleIR cs) \<Rightarrow>
          length cs = 2 \<and> cs ! 1 = func \<and>
          (case Get g (cs ! 0) of Some n \<Rightarrow> IsString n | None \<Rightarrow> False) \<and>
          (case Get g func of Some (FuncIR fname fargs) \<Rightarrow> fargs = [] | _ \<Rightarrow> False)
      | _ \<Rightarrow> False)"

section \<open>Facts about the store\<close>

lemma Get_append_old: "i < length g \<Longrightarrow> Get (g @ xs) i = Get g i"
  by (simp add: Get_def nth_append)

lemma Get_Some_less: "Get g i = Some n \<Longrightarrow> i < length g"
  by (simp add: Get_def split: if_splits)

lemma Get_snoc_new: "Get (g @ [x]) (length g) = x"
  by (simp add: Get_def)

lemma Get_erase_same: "Get (g[i := None]) i = None"
  by (simp add: Get_def)

lemma Get_erase_other: "j \<noteq> i \<Longrightarrow> Get (g[i := None]) j = Get g j"
  by (simp add: Get_def)

lemma Get_erase: "Get (g[i := None]) j = (if j = i then None else Get g j)"
  by (simp add: Get_def)

lemma Get_update: "Get (g[i := x]) j = (if j = i \<and> i < length g then x else Get g j)"
  by (simp add: Get_def)

lemma referenced_iff:
  "referenced g i \<longleftrightarrow> (\<exists>j m. Get g j = Some m \<and> i \<in> set (refs_of m))"
proof
  assume "referenced g i"
  then obtain x where x: "x \<in> set g" and p: "case x of None \<Rightarrow> False | Some n \<Rightarrow> i \<in> set (refs_of n)"
    by (auto simp: referenced_def list_ex_iff)
  from p obtain m where m: "x = Some m" and r: "i \<in> set (refs_of m)" by (cases x) auto
  from x obtain j where "j < length g" and "g ! j = x" by (auto simp: in_set_conv_nth)
  with m have "Get g j = Some m" by (simp add: Get_def)
  with r show "\<exists>j m. Get g j = Some m \<and> i \<in> set (refs_of m)" by blast
next
  assume "\<exists>j m. Get g j = Some m \<and> i \<in> set (refs_of m)"
  then obtain j m where g: "Get g j = Some m" and r: "i \<in> set (refs_of m)" by blast
  from g have "j < length g" and "g ! j = Some m" by (auto simp: Get_def split: if_splits)
  then have "Some m \<in> set g" by (metis nth_mem)
  with r show "referenced g i" by (force simp: referenced_def list_ex_iff)
qed

lemma referenced_erase: "referenced (g[i := None]) j \<Longrightarrow> referenced g j"
  unfolding referenced_iff by (auto simp: Get_erase split: if_splits)

lemma referenced_snoc:
  "referenced (g @ [Some m]) i \<longleftrightarrow> referenced g i \<or> i \<in> set (refs_of m)"
  by (auto simp: referenced_def)

lemma referenced_update:
  assumes "referenced (g[i := Some m]) k"
  shows "referenced g k \<or> k \<in> set (refs_of m)"
proof -
  from assms obtain j n where j: "Get (g[i := Some m]) j = Some n" and r: "k \<in> set (refs_of n)"
    unfolding referenced_iff by blast
  show ?thesis
  proof (cases "j = i \<and> i < length g")
    case True
    with j have "n = m" by (simp add: Get_update)
    with r show ?thesis by simp
  next
    case False
    with j have "Get g j = Some n" by (simp add: Get_update)
    with r show ?thesis unfolding referenced_iff by blast
  qed
qed

section \<open>Limit\<close>

text \<open>
  C5. After a successful call of the Limit handler whose argument \<open>n\<close> is the integer
  literal 5, the literal's node is no longer in the graph, and the Limit operator the
  new dataframe wraps stores the row count 5 (over the dataframe's operator as parent).
\<close>

theorem LimitHandler_consumes_literal:
  assumes "Get g (GetArg args ''n'') = Some (IntIR 5)"
    and "LimitHandler_Eval g df args = (Inr df', g')"
  shows "Get g' (GetArg args ''n'') = None \<and> Get g' (op df') = Some (LimitIR (op df) 5)"
proof -
  let ?n = "GetArg args ''n''"
  let ?g1 = "g @ [Some (LimitIR (op df) 5)]"
  have lt: "?n < length g" using assms(1) by (rule Get_Some_less)
  from assms have del: "DeleteNode ?g1 ?n = (Inr (), g')" and df': "df' = Dataframe (length g)"
    by (auto simp: LimitHandler_Eval_def IsInt_def CreateNode_def Let_def
        split: sum.splits prod.splits)
  from del have g': "g' = ?g1[?n := None]"
    by (auto simp: DeleteNode_def split: option.splits if_splits)
  have "Get g' ?n = None" unfolding g' by (rule Get_erase_same)
  moreover have "Get g' (length g) = Some (LimitIR (op df) 5)"
    unfolding g' using lt by (simp add: Get_erase_other Get_snoc_new)
  ultimately show ?thesis by (simp add: df')
qed

theorem LimitHandler_consumes_literal_witness:
  "LimitHandler_Eval [Some (MemorySourceIR ''t''), Some (IntIR 5)] (Dataframe 0)
       \<lparr>GetArg = (\<lambda>_. 1), kwargs = []\<rparr>
     = (Inr (Dataframe 2), [Some (MemorySourceIR ''t''), None, Some (LimitIR 0 5)])
   \<and> Get [Some (MemorySourceIR ''t''), None, Some (LimitIR 0 5)] 1 = None
   \<and> Get [Some (MemorySourceIR ''t''), None, Some (LimitIR 0 5)] 2 = Some (LimitIR 0 5)"
proof -
  have run: "LimitHandler_Eval [Some (MemorySourceIR ''t''), Some (IntIR 5)] (Dataframe 0)
       \<lparr>GetArg = (\<lambda>_. 1), kwargs = []\<rparr>
     = (Inr (Dataframe 2), [Some (MemorySourceIR ''t''), None, Some (LimitIR 0 5)])"
    by (simp add: LimitHandler_Eval_def Get_def IsInt_def CreateNode_def DeleteNode_def
        referenced_def refs_of_def)
  have src: "Get [Some (MemorySourceIR ''t''), Some (IntIR 5)]
      (GetArg \<lparr>GetArg = (\<lambda>_. 1), kwargs = []\<rparr> ''n'') = Some (IntIR 5)"
    by (simp add: Get_def)
  from LimitHandler_consumes_literal [OF src run] run show ?thesis by simp
qed

section \<open>Facts about strings of nodes and new columns\<close>

lemma upt_plus_Suc: "[n ..< Suc (n + k)] = n # [Suc n ..< Suc (n + k)]"
  by (rule upt_conv_Cons) simp

lemma ParseStrings_ok:
  "map (Get g) cs = map (\<lambda>s. Some (StringIR s)) names \<Longrightarrow>
   ParseStringsFromCollection g cs = Inr names"
  by (induction cs arbitrary: names) auto

lemma ParseStrings_Inr:
  "ParseStringsFromCollection g cs = Inr names \<Longrightarrow>
   map (Get g) cs = map (\<lambda>s. Some (StringIR s)) names"
  by (induction cs arbitrary: names) (auto split: option.splits IRNode.splits sum.splits)

lemma EvalKeep_columns_eq:
  "EvalKeep_columns g names acc =
     (Inr (acc @ zip names [length g ..< length g + length names]),
      g @ map (\<lambda>s. Some (ColumnIR s 0)) names)"
proof (induction names arbitrary: g acc)
  case Nil
  then show ?case by simp
next
  case (Cons s names)
  show ?case by (simp add: CreateNode_def Cons.IH upt_plus_Suc del: upt_Suc)
qed

lemma map_Get_append:
  assumes "map (Get g) cs = map (\<lambda>s. Some (f s)) names"
  shows "map (Get (g @ xs)) cs = map (\<lambda>s. Some (f s)) names"
proof -
  have "\<forall>c\<in>set cs. Get g c \<noteq> None"
  proof
    fix c assume "c \<in> set cs"
    then have "Get g c \<in> set (map (Get g) cs)" by simp
    then show "Get g c \<noteq> None" unfolding assms by auto
  qed
  then have "\<forall>c\<in>set cs. Get (g @ xs) c = Get g c"
    by (auto simp: Get_def nth_append split: if_splits)
  then have "map (Get (g @ xs)) cs = map (Get g) cs" by simp
  then show ?thesis using assms by simp
qed

lemma ProcessCols_children_eq:
  "map (Get g) cs = map (\<lambda>s. Some (StringIR s)) names \<Longrightarrow>
   ProcessCols_children g cs p =
     (Inr [length g ..< length g + length names], g @ map (\<lambda>s. Some (ColumnIR s p)) names)"
proof (induction cs arbitrary: g names)
  case Nil
  then show ?case by simp
next
  case (Cons c cs)
  then obtain s rest where names: "names = s # rest" and c: "Get g c = Some (StringIR s)"
    and rest: "map (Get g) cs = map (\<lambda>s. Some (StringIR s)) rest"
    by (cases names) auto
  have "map (Get (g @ [Some (ColumnIR s p)])) cs = map (\<lambda>s. Some (StringIR s)) rest"
    using rest by (rule map_Get_append)
  from Cons.IH [OF this] show ?case
    by (simp add: names c CreateNode_def upt_plus_Suc del: upt_Suc)
qed

lemma strings_list_all:
  "map (Get g) cs = map (\<lambda>s. Some (StringIR s)) names \<Longrightarrow>
   list_all (\<lambda>c. case Get g c of None \<Rightarrow> False | Some m \<Rightarrow> IsString m) cs"
  by (induction cs arbitrary: names) (auto simp: IsString_def)

lemma list_all_strings:
  "list_all (\<lambda>c. case Get g c of None \<Rightarrow> False | Some m \<Rightarrow> IsString m) cs \<Longrightarrow>
   \<exists>names. map (Get g) cs = map (\<lambda>s. Some (StringIR s)) names"
proof (induction cs)
  case Nil
  then show ?case by simp
next
  case (Cons c cs)
  then obtain names where n: "map (Get g) cs = map (\<lambda>s. Some (StringIR s)) names" by auto
  from Cons.prems obtain s where "Get g c = Some (StringIR s)"
    by (cases "Get g c"; cases "the (Get g c)") (auto simp: IsString_def)
  with n have "map (Get g) (c # cs) = map (\<lambda>s. Some (StringIR s)) (s # names)" by simp
  then show ?case by blast
qed

lemma ProcessCols_labels:
  assumes "is_labels g node names"
  shows "ProcessCols g node arg_name p =
     (Inr [length g ..< length g + length names], g @ map (\<lambda>s. Some (ColumnIR s p)) names)"
proof (cases "Get g node")
  case None
  with assms show ?thesis by (simp add: is_labels_def)
next
  case (Some n)
  show ?thesis
  proof (cases n)
    case (StringIR s)
    with Some assms have "names = [s]" by (simp add: is_labels_def)
    with Some StringIR show ?thesis
      by (simp add: ProcessCols_def ListWithChildren_def IsString_def CreateNode_def)
  next
    case (ListIR cs)
    with Some assms have m: "map (Get g) cs = map (\<lambda>s. Some (StringIR s)) names"
      by (simp add: is_labels_def)
    with Some ListIR show ?thesis
      by (simp add: ProcessCols_def ListWithChildren_def strings_list_all ProcessCols_children_eq)
  qed (use Some assms in \<open>simp_all add: is_labels_def\<close>)
qed

lemma is_labels_append: "is_labels g node names \<Longrightarrow> is_labels (g @ xs) node names"
proof -
  assume a: "is_labels g node names"
  then obtain n where n: "Get g node = Some n"
    by (cases "Get g node") (auto simp: is_labels_def)
  then have n': "Get (g @ xs) node = Some n"
    by (auto simp: Get_def nth_append split: if_splits)
  show ?thesis
  proof (cases n)
    case (ListIR cs)
    with a n have "map (Get g) cs = map (\<lambda>s. Some (StringIR s)) names"
      by (simp add: is_labels_def)
    then have "map (Get (g @ xs)) cs = map (\<lambda>s. Some (StringIR s)) names"
      by (rule map_Get_append)
    with n' ListIR show ?thesis by (simp add: is_labels_def)
  qed (use a n n' in \<open>simp_all add: is_labels_def\<close>)
qed

section \<open>Subscript\<close>

text \<open>
  C9. When the key of a subscript is not an expression node, the Subscript handler
  returns the error that the subscript argument must have an expression (naming the
  kind of the node it got). It does so before the Map branch or the Filter branch
  runs: the graph it leaves is the graph it was given, so the call created no node.
\<close>

theorem SubscriptHandler_rejects_non_expression:
  assumes "Get g (GetArg args ''key'') = Some n" and "\<not> IsExpression n"
  shows "SubscriptHandler_Eval g df args =
      (Inl (IRNodeError (GetArg args ''key'')
             ''subscript argument must have an expression. '$0' not allowed''
             [SNode (type_of n)]), g)"
  using assms by (simp add: SubscriptHandler_Eval_def)

theorem SubscriptHandler_rejects_non_expression_witness:
  "SubscriptHandler_Eval [Some (MemorySourceIR ''t''), Some (MemorySourceIR ''u'')] (Dataframe 0)
       \<lparr>GetArg = (\<lambda>_. 1), kwargs = []\<rparr> =
      (Inl (IRNodeError 1 ''subscript argument must have an expression. '$0' not allowed''
             [SNode kMemorySource]), [Some (MemorySourceIR ''t''), Some (MemorySourceIR ''u'')])"
proof -
  have a: "Get [Some (MemorySourceIR ''t''), Some (MemorySourceIR ''u'')]
      (GetArg \<lparr>GetArg = (\<lambda>_. 1), kwargs = []\<rparr> ''key'') = Some (MemorySourceIR ''u'')"
    by (simp add: Get_def)
  have b: "\<not> IsExpression (MemorySourceIR ''u'')" by (simp add: IsExpression_def)
  from SubscriptHandler_rejects_non_expression [OF a b] show ?thesis by simp
qed

text \<open>
  C3. The key of a subscript is an expression. If it is a list of strings, the handler
  adds one new Column node (parent index 0) per name, in the order of the list, and
  then a Map operator over the dataframe's operator whose output expressions are
  exactly these names with these columns and whose \<open>keep_input_columns\<close> is false; a
  list with a child that is no string is the error of reading the strings, and the
  graph stays as it was. If the key is any other expression, the handler adds one
  Filter operator that holds the key itself: nothing else is added (no Column) and
  nothing is deleted.
\<close>

theorem SubscriptHandler_dispatch:
  assumes "Get g (GetArg args ''key'') = Some n" and "IsExpression n"
  shows "(\<forall>cs names. n = ListIR cs \<longrightarrow> map (Get g) cs = map (\<lambda>s. Some (StringIR s)) names \<longrightarrow>
            SubscriptHandler_Eval g df args =
              (Inr (Dataframe (length g + length names)),
               g @ map (\<lambda>s. Some (ColumnIR s 0)) names
                 @ [Some (MapIR (op df) (zip names [length g ..< length g + length names]) False)]))
       \<and> (\<forall>cs e. n = ListIR cs \<longrightarrow> ParseStringsFromCollection g cs = Inl e \<longrightarrow>
            SubscriptHandler_Eval g df args = (Inl e, g))
       \<and> (\<not> IsList n \<longrightarrow>
            SubscriptHandler_Eval g df args =
              (Inr (Dataframe (length g)), g @ [Some (FilterIR (op df) (GetArg args ''key''))]))"
  using assms
  by (auto simp: SubscriptHandler_Eval_def SubscriptHandler_EvalKeep_def IsList_def
      SubscriptHandler_EvalFilter_def CreateNode_def ParseStrings_ok EvalKeep_columns_eq)

theorem SubscriptHandler_dispatch_witness:
  "SubscriptHandler_Eval
       [Some (MemorySourceIR ''t''), Some (StringIR ''a''), Some (StringIR ''b''),
        Some (ListIR [1, 2])]
       (Dataframe 0) \<lparr>GetArg = (\<lambda>_. 3), kwargs = []\<rparr> =
     (Inr (Dataframe 6),
      [Some (MemorySourceIR ''t''), Some (StringIR ''a''), Some (StringIR ''b''),
       Some (ListIR [1, 2]), Some (ColumnIR ''a'' 0), Some (ColumnIR ''b'' 0),
       Some (MapIR 0 [(''a'', 4), (''b'', 5)] False)])
   \<and> SubscriptHandler_Eval
       [Some (MemorySourceIR ''t''), Some (ColumnIR ''x'' 0), Some (IntIR 0),
        Some (FuncIR ''greaterThan'' [1, 2])]
       (Dataframe 0) \<lparr>GetArg = (\<lambda>_. 3), kwargs = []\<rparr> =
     (Inr (Dataframe 4),
      [Some (MemorySourceIR ''t''), Some (ColumnIR ''x'' 0), Some (IntIR 0),
       Some (FuncIR ''greaterThan'' [1, 2]), Some (FilterIR 0 3)])"
proof -
  let ?g1 = "[Some (MemorySourceIR ''t''), Some (StringIR ''a''), Some (StringIR ''b''),
        Some (ListIR [1, 2])]"
  let ?g2 = "[Some (MemorySourceIR ''t''), Some (ColumnIR ''x'' 0), Some (IntIR 0),
        Some (FuncIR ''greaterThan'' [1, 2])]"
  let ?args = "\<lparr>GetArg = (\<lambda>_. 3), kwargs = []\<rparr>"
  have k1: "Get ?g1 (GetArg ?args ''key'') = Some (ListIR [1, 2])" by (simp add: Get_def)
  have e1: "IsExpression (ListIR [1, 2])" by (simp add: IsExpression_def)
  have s1: "map (Get ?g1) [1, 2] = map (\<lambda>s. Some (StringIR s)) [''a'', ''b'']"
    by (simp add: Get_def)
  have k2: "Get ?g2 (GetArg ?args ''key'') = Some (FuncIR ''greaterThan'' [1, 2])"
    by (simp add: Get_def)
  have e2: "IsExpression (FuncIR ''greaterThan'' [1, 2])" by (simp add: IsExpression_def)
  have l2: "\<not> IsList (FuncIR ''greaterThan'' [1, 2])" by (simp add: IsList_def)
  from SubscriptHandler_dispatch [OF k1 e1, of "Dataframe 0"] s1
  have "SubscriptHandler_Eval ?g1 (Dataframe 0) ?args =
      (Inr (Dataframe (length ?g1 + length [''a'', ''b''])),
       ?g1 @ map (\<lambda>s. Some (ColumnIR s 0)) [''a'', ''b'']
         @ [Some (MapIR (op (Dataframe 0))
              (zip [''a'', ''b''] [length ?g1 ..< length ?g1 + length [''a'', ''b'']]) False)])"
    by blast
  moreover have "[4 ..< 6] = [4, 5::nat]" by (simp add: upt_rec)
  moreover from SubscriptHandler_dispatch [OF k2 e2, of "Dataframe 0"] l2
  have "SubscriptHandler_Eval ?g2 (Dataframe 0) ?args =
      (Inr (Dataframe (length ?g2)), ?g2 @ [Some (FilterIR (op (Dataframe 0)) (GetArg ?args ''key''))])"
    by blast
  ultimately show ?thesis by simp
qed

section \<open>Join\<close>

lemma Get_append_cols:
  assumes "Get (g @ xs) i = Some m" and "\<forall>x\<in>set xs. \<exists>s p. x = Some (ColumnIR s p)"
    and "type_of m \<noteq> kColumn"
  shows "Get g i = Some m"
proof (cases "i < length g")
  case True
  with assms(1) show ?thesis by (simp add: Get_def nth_append split: if_splits)
next
  case False
  with assms(1) have "i - length g < length xs" and "xs ! (i - length g) = Some m"
    by (auto simp: Get_def nth_append split: if_splits)
  then have "Some m \<in> set xs" by (metis nth_mem)
  with assms(2,3) show ?thesis by auto
qed

lemma Get_append_Some: "Get g i = Some m \<Longrightarrow> Get (g @ xs) i = Some m"
  by (auto simp: Get_def nth_append split: if_splits)

lemma string_child_append_cols:
  assumes "\<forall>x\<in>set xs. \<exists>s p. x = Some (ColumnIR s p)"
  shows "(case Get (g @ xs) c of None \<Rightarrow> False | Some m \<Rightarrow> IsString m)
       = (case Get g c of None \<Rightarrow> False | Some m \<Rightarrow> IsString m)"
proof (cases "Get g c")
  case (Some m)
  then show ?thesis by (simp add: Get_append_Some)
next
  case None
  show ?thesis
  proof (cases "Get (g @ xs) c")
    case (Some m)
    show ?thesis
    proof (cases "type_of m = kColumn")
      case True
      with Some None show ?thesis by (simp add: IsString_def)
    next
      case False
      from Get_append_cols [OF Some assms False] None show ?thesis by simp
    qed
  qed (simp add: None)
qed

lemma two_strings_append_cols:
  assumes "\<forall>x\<in>set xs. \<exists>s p. x = Some (ColumnIR s p)"
  shows "two_strings (g @ xs) i = two_strings g i"
proof (cases "Get g i")
  case (Some n)
  then have "Get (g @ xs) i = Some n" by (rule Get_append_Some)
  with Some show ?thesis
    by (simp add: two_strings_def string_child_append_cols [OF assms])
next
  case None
  show ?thesis
  proof (cases "Get (g @ xs) i")
    case (Some m)
    show ?thesis
    proof (cases "type_of m = kColumn")
      case True
      with Some None show ?thesis by (simp add: two_strings_def IsList_def IsTuple_def)
    next
      case False
      from Get_append_cols [OF Some assms False] None show ?thesis by simp
    qed
  qed (simp add: None two_strings_def)
qed

text \<open>The stage of JoinHandler::Eval from the check of suffixes on.\<close>

lemma Join_after_columns:
  assumes "Get g (GetArg args ''right'') = Some rn" and "IsOperator rn"
    and "Get g (GetArg args ''how'') = Some (StringIR how)"
    and "is_labels g (GetArg args ''left_on'') ls"
    and "is_labels g (GetArg args ''right_on'') rs"
  shows "JoinHandler_Eval jt g df args =
    (let g2 = g @ map (\<lambda>s. Some (ColumnIR s 0)) ls @ map (\<lambda>s. Some (ColumnIR s 1)) rs;
         suffixes_node = GetArg args ''suffixes'' in
     (case Get g2 suffixes_node of
         None \<Rightarrow> (Inl (NoSuchNode suffixes_node), g2)
       | Some sn \<Rightarrow>
      if \<not> CollectionWithChildren g2 IsString sn then
        (Inl (IRNodeError suffixes_node
           '''suffixes' must be a tuple with 2 strings for the left and right suffixes. Received $0''
           [SNode (type_of sn)]), g2)
      else
      (case ParseStringsFromCollection g2 (children_of sn) of
         Inl e \<Rightarrow> (Inl e, g2)
       | Inr suffix_strs \<Rightarrow>
      if length suffix_strs \<noteq> 2 then
        (Inl (IRNodeError suffixes_node
           '''suffixes' must be a tuple with 2 elements. Received $0''
           [SNat (length suffix_strs)]), g2)
      else
      (case CreateNode_JoinIR jt g2 [op df, GetArg args ''right''] how
             [length g ..< length g + length ls]
             [length g + length ls ..< length g + length ls + length rs] suffix_strs of
         (Inl e, g3) \<Rightarrow> (Inl e, g3)
       | (Inr join_op, g3) \<Rightarrow> (Inr (Dataframe join_op), g3)))))"
proof -
  have r: "is_labels (g @ map (\<lambda>s. Some (ColumnIR s 0)) ls) (GetArg args ''right_on'') rs"
    using assms(5) by (rule is_labels_append)
  show ?thesis
    using assms(1,2,3)
    by (simp add: JoinHandler_Eval_def IsString_def ProcessCols_labels [OF assms(4)]
        ProcessCols_labels [OF r] Let_def)
qed


lemma two_strings_D:
  assumes "two_strings g i"
  shows "\<exists>sn a b. Get g i = Some sn \<and> CollectionWithChildren g IsString sn \<and>
           ParseStringsFromCollection g (children_of sn) = Inr [a, b]"
proof -
  from assms obtain sn where sn: "Get g i = Some sn"
    and kind: "IsList sn \<or> IsTuple sn"
    and len: "length (children_of sn) = 2"
    and all: "list_all (\<lambda>c. case Get g c of None \<Rightarrow> False | Some m \<Rightarrow> IsString m) (children_of sn)"
    by (cases "Get g i") (auto simp: two_strings_def)
  from list_all_strings [OF all] obtain names
    where names: "map (Get g) (children_of sn) = map (\<lambda>s. Some (StringIR s)) names" by blast
  then have "length names = 2" using len by (metis length_map)
  then obtain a b where ab: "names = [a, b]"
    by (cases names; cases "tl names") auto
  have "ParseStringsFromCollection g (children_of sn) = Inr [a, b]"
    using names unfolding ab by (rule ParseStrings_ok)
  moreover have "CollectionWithChildren g IsString sn"
    using kind all by (cases sn) (auto simp: CollectionWithChildren_def IsList_def IsTuple_def)
  ultimately show ?thesis using sn by blast
qed

lemma two_strings_I:
  assumes "Get g i = Some sn" and "CollectionWithChildren g IsString sn"
    and "ParseStringsFromCollection g (children_of sn) = Inr strs" and "length strs = 2"
  shows "two_strings g i"
proof -
  from ParseStrings_Inr [OF assms(3)] have "length (children_of sn) = length strs"
    by (metis length_map)
  with assms(1,2,4) show ?thesis
    by (cases sn) (auto simp: two_strings_def CollectionWithChildren_def IsList_def IsTuple_def)
qed

lemma ParseStrings_error: "ParseStringsFromCollection g cs = Inl e \<Longrightarrow> e \<noteq> CheckFailure"
  by (induction cs) (auto split: option.splits IRNode.splits sum.splits)

lemma Join_valid:
  assumes "Get g (GetArg args ''right'') = Some rn" and "IsOperator rn"
    and "Get g (GetArg args ''how'') = Some (StringIR how)" and "jt how = Some t"
    and "is_labels g (GetArg args ''left_on'') ls"
    and "is_labels g (GetArg args ''right_on'') rs"
    and "length ls = length rs"
    and "two_strings g (GetArg args ''suffixes'')"
  shows "\<exists>a b. JoinHandler_Eval jt g df args =
     (Inr (Dataframe (length g + length ls + length rs)),
      g @ map (\<lambda>s. Some (ColumnIR s 0)) ls @ map (\<lambda>s. Some (ColumnIR s 1)) rs
        @ [Some (JoinIR [op df, GetArg args ''right''] t
             (zip [length g ..< length g + length ls]
                  [length g + length ls ..< length g + length ls + length rs]) [a, b])])"
proof -
  let ?xs = "map (\<lambda>s. Some (ColumnIR s 0)) ls @ map (\<lambda>s. Some (ColumnIR s 1)) rs"
  have cols: "\<forall>x\<in>set ?xs. \<exists>s p. x = Some (ColumnIR s p)" by auto
  have "two_strings (g @ ?xs) (GetArg args ''suffixes'')"
    using assms(8) by (simp add: two_strings_append_cols [OF cols])
  from two_strings_D [OF this] obtain sn a b
    where "Get (g @ ?xs) (GetArg args ''suffixes'') = Some sn"
      and "CollectionWithChildren (g @ ?xs) IsString sn"
      and "ParseStringsFromCollection (g @ ?xs) (children_of sn) = Inr [a, b]"
    by blast
  then have "JoinHandler_Eval jt g df args =
     (Inr (Dataframe (length g + length ls + length rs)),
      g @ map (\<lambda>s. Some (ColumnIR s 0)) ls @ map (\<lambda>s. Some (ColumnIR s 1)) rs
        @ [Some (JoinIR [op df, GetArg args ''right''] t
             (zip [length g ..< length g + length ls]
                  [length g + length ls ..< length g + length ls + length rs]) [a, b])])"
    using assms(4,7)
    by (simp add: Join_after_columns [OF assms(1,2,3,5,6)] CreateNode_JoinIR_def CreateNode_def
        del: upt_Suc)
  then show ?thesis by blast
qed

lemma Join_invalid_suffixes:
  assumes "Get g (GetArg args ''right'') = Some rn" and "IsOperator rn"
    and "Get g (GetArg args ''how'') = Some (StringIR how)"
    and "is_labels g (GetArg args ''left_on'') ls"
    and "is_labels g (GetArg args ''right_on'') rs"
    and "\<not> two_strings g (GetArg args ''suffixes'')"
  shows "\<exists>e g'. JoinHandler_Eval jt g df args = (Inl e, g') \<and> e \<noteq> CheckFailure"
proof -
  let ?xs = "map (\<lambda>s. Some (ColumnIR s 0)) ls @ map (\<lambda>s. Some (ColumnIR s 1)) rs"
  let ?i = "GetArg args ''suffixes''"
  have cols: "\<forall>x\<in>set ?xs. \<exists>s p. x = Some (ColumnIR s p)" by auto
  have no: "\<not> two_strings (g @ ?xs) ?i"
    using assms(6) by (simp add: two_strings_append_cols [OF cols])
  note eq = Join_after_columns [OF assms(1,2,3,4,5), of jt df]
  show ?thesis
  proof (cases "Get (g @ ?xs) ?i")
    case None
    then show ?thesis by (simp add: eq)
  next
    case (Some sn)
    show ?thesis
    proof (cases "CollectionWithChildren (g @ ?xs) IsString sn")
      case False
      with Some show ?thesis by (simp add: eq)
    next
      case True
      show ?thesis
      proof (cases "ParseStringsFromCollection (g @ ?xs) (children_of sn)")
        case (Inl e)
        with Some True ParseStrings_error [OF Inl] show ?thesis by (simp add: eq)
      next
        case (Inr strs)
        with two_strings_I [OF Some True Inr] no have "length strs \<noteq> 2" by blast
        with Some True Inr show ?thesis by (simp add: eq)
      qed
    qed
  qed
qed

lemma Collection_append_cols:
  assumes "\<forall>x\<in>set xs. \<exists>s p. x = Some (ColumnIR s p)"
  shows "CollectionWithChildren (g @ xs) IsString sn = CollectionWithChildren g IsString sn"
  by (cases sn) (simp_all add: CollectionWithChildren_def string_child_append_cols [OF assms])

lemma Collection_strings:
  assumes "CollectionWithChildren g IsString sn"
  shows "\<exists>strs. ParseStringsFromCollection g (children_of sn) = Inr strs \<and>
       length strs = length (children_of sn)"
proof -
  from assms
  have all: "list_all (\<lambda>c. case Get g c of None \<Rightarrow> False | Some m \<Rightarrow> IsString m) (children_of sn)"
    by (cases sn) (simp_all add: CollectionWithChildren_def)
  from list_all_strings [OF all] obtain names
    where names: "map (Get g) (children_of sn) = map (\<lambda>s. Some (StringIR s)) names" by blast
  then have "length names = length (children_of sn)" by (metis length_map)
  moreover have "ParseStringsFromCollection g (children_of sn) = Inr names"
    using names by (rule ParseStrings_ok)
  ultimately show ?thesis by blast
qed

text \<open>
  The error for a \<open>suffixes\<close> node that is not a collection of two strings: a collection
  of strings of another size is refused with its size, anything else with its kind.
  The columns of \<open>left_on\<close> and \<open>right_on\<close> have been created by then.
\<close>

lemma Join_bad_suffixes:
  assumes "Get g (GetArg args ''right'') = Some rn" and "IsOperator rn"
    and "Get g (GetArg args ''how'') = Some (StringIR how)"
    and "is_labels g (GetArg args ''left_on'') ls"
    and "is_labels g (GetArg args ''right_on'') rs"
    and sn: "Get g (GetArg args ''suffixes'') = Some sn"
    and no: "\<not> two_strings g (GetArg args ''suffixes'')"
  shows "JoinHandler_Eval jt g df args =
    (Inl (if CollectionWithChildren g IsString sn
          then IRNodeError (GetArg args ''suffixes'')
                 '''suffixes' must be a tuple with 2 elements. Received $0''
                 [SNat (length (children_of sn))]
          else IRNodeError (GetArg args ''suffixes'')
                 '''suffixes' must be a tuple with 2 strings for the left and right suffixes. Received $0''
                 [SNode (type_of sn)]),
     g @ map (\<lambda>s. Some (ColumnIR s 0)) ls @ map (\<lambda>s. Some (ColumnIR s 1)) rs)"
proof -
  let ?xs = "map (\<lambda>s. Some (ColumnIR s 0)) ls @ map (\<lambda>s. Some (ColumnIR s 1)) rs"
  let ?i = "GetArg args ''suffixes''"
  have cols: "\<forall>x\<in>set ?xs. \<exists>s p. x = Some (ColumnIR s p)" by auto
  have sn': "Get (g @ ?xs) ?i = Some sn" using sn by (rule Get_append_Some)
  have coll: "CollectionWithChildren (g @ ?xs) IsString sn = CollectionWithChildren g IsString sn"
    using cols by (rule Collection_append_cols)
  note eq = Join_after_columns [OF assms(1,2,3,4,5), of jt df]
  show ?thesis
  proof (cases "CollectionWithChildren g IsString sn")
    case False
    with sn' coll show ?thesis by (simp add: eq)
  next
    case True
    then have True': "CollectionWithChildren (g @ ?xs) IsString sn" using coll by simp
    from Collection_strings [OF True'] obtain strs where
      p: "ParseStringsFromCollection (g @ ?xs) (children_of sn) = Inr strs"
      and len: "length strs = length (children_of sn)" by blast
    have "\<not> two_strings (g @ ?xs) ?i"
      using no by (simp add: two_strings_append_cols [OF cols])
    with two_strings_I [OF sn' True' p] have "length strs \<noteq> 2" by blast
    with sn' True True' p len show ?thesis by (simp add: eq)
  qed
qed

text \<open>
  C4. Let the other arguments of \<open>merge\<close> be valid: \<open>right\<close> is an operator, \<open>how\<close> is a
  string that names a join type, and \<open>left_on\<close> and \<open>right_on\<close> give equally many labels.
  Then the Join handler succeeds exactly when \<open>suffixes\<close> is a list or tuple of exactly
  two strings. With any other \<open>suffixes\<close> node \<open>sn\<close> it returns a structured error at
  that node: "'suffixes' must be a tuple with 2 elements. Received $0" with the number
  of children when \<open>sn\<close> is a list or tuple of strings of another size, and "'suffixes'
  must be a tuple with 2 strings for the left and right suffixes. Received $0" with
  the kind of \<open>sn\<close> otherwise (a child that is no string, no collection at all). The
  graph then holds the columns made for \<open>left_on\<close> and \<open>right_on\<close> and no Join node.
\<close>

theorem JoinHandler_suffix_arity:
  assumes "Get g (GetArg args ''right'') = Some rn" and "IsOperator rn"
    and "Get g (GetArg args ''how'') = Some (StringIR how)" and "join_types how = Some t"
    and "is_labels g (GetArg args ''left_on'') ls"
    and "is_labels g (GetArg args ''right_on'') rs"
    and "length ls = length rs"
  shows "((\<exists>df' g'. JoinHandler_Eval join_types g df args = (Inr df', g'))
            \<longleftrightarrow> two_strings g (GetArg args ''suffixes''))
       \<and> (Get g (GetArg args ''suffixes'') = Some sn \<longrightarrow>
          \<not> two_strings g (GetArg args ''suffixes'') \<longrightarrow>
            JoinHandler_Eval join_types g df args =
              (Inl (if CollectionWithChildren g IsString sn
                    then IRNodeError (GetArg args ''suffixes'')
                           '''suffixes' must be a tuple with 2 elements. Received $0''
                           [SNat (length (children_of sn))]
                    else IRNodeError (GetArg args ''suffixes'')
                           '''suffixes' must be a tuple with 2 strings for the left and right suffixes. Received $0''
                           [SNode (type_of sn)]),
               g @ map (\<lambda>s. Some (ColumnIR s 0)) ls @ map (\<lambda>s. Some (ColumnIR s 1)) rs))"
proof (rule conjI)
  have ok: "two_strings g (GetArg args ''suffixes'') \<Longrightarrow>
      \<exists>df' g'. JoinHandler_Eval join_types g df args = (Inr df', g')"
    using Join_valid [where jt = join_types, OF assms, of df] by blast
  have bad: "\<not> two_strings g (GetArg args ''suffixes'') \<Longrightarrow>
      \<exists>e g'. JoinHandler_Eval join_types g df args = (Inl e, g')"
    using Join_invalid_suffixes [OF assms(1,2,3,5,6), of join_types df] by blast
  from ok bad
  show "(\<exists>df' g'. JoinHandler_Eval join_types g df args = (Inr df', g'))
            \<longleftrightarrow> two_strings g (GetArg args ''suffixes'')"
    by (metis Inl_Inr_False prod.inject)
next
  show "Get g (GetArg args ''suffixes'') = Some sn \<longrightarrow>
          \<not> two_strings g (GetArg args ''suffixes'') \<longrightarrow>
            JoinHandler_Eval join_types g df args =
              (Inl (if CollectionWithChildren g IsString sn
                    then IRNodeError (GetArg args ''suffixes'')
                           '''suffixes' must be a tuple with 2 elements. Received $0''
                           [SNat (length (children_of sn))]
                    else IRNodeError (GetArg args ''suffixes'')
                           '''suffixes' must be a tuple with 2 strings for the left and right suffixes. Received $0''
                           [SNode (type_of sn)]),
               g @ map (\<lambda>s. Some (ColumnIR s 0)) ls @ map (\<lambda>s. Some (ColumnIR s 1)) rs)"
    using Join_bad_suffixes [OF assms(1,2,3,5,6), of sn join_types df] by blast
qed

theorem JoinHandler_suffix_arity_witness:
  "(\<exists>df' g'. JoinHandler_Eval (map_of [(''inner'', INNER)])
     [Some (MemorySourceIR ''l''), Some (MemorySourceIR ''r''), Some (StringIR ''inner''),
      Some (StringIR ''a''), Some (StringIR ''b''), Some (StringIR ''_x''),
      Some (StringIR ''_y''), Some (TupleIR [5, 6]), Some (TupleIR [5, 6, 5])] (Dataframe 0)
     \<lparr>GetArg = (\<lambda>_. 0)(''right'' := 1, ''how'' := 2, ''left_on'' := 3, ''right_on'' := 4,
         ''suffixes'' := 7), kwargs = []\<rparr> = (Inr df', g'))
   \<and> JoinHandler_Eval (map_of [(''inner'', INNER)])
     [Some (MemorySourceIR ''l''), Some (MemorySourceIR ''r''), Some (StringIR ''inner''),
      Some (StringIR ''a''), Some (StringIR ''b''), Some (StringIR ''_x''),
      Some (StringIR ''_y''), Some (TupleIR [5, 6]), Some (TupleIR [5, 6, 5])] (Dataframe 0)
     \<lparr>GetArg = (\<lambda>_. 0)(''right'' := 1, ''how'' := 2, ''left_on'' := 3, ''right_on'' := 4,
         ''suffixes'' := 8), kwargs = []\<rparr> =
     (Inl (IRNodeError 8 '''suffixes' must be a tuple with 2 elements. Received $0'' [SNat 3]),
     [Some (MemorySourceIR ''l''), Some (MemorySourceIR ''r''), Some (StringIR ''inner''),
      Some (StringIR ''a''), Some (StringIR ''b''), Some (StringIR ''_x''),
      Some (StringIR ''_y''), Some (TupleIR [5, 6]), Some (TupleIR [5, 6, 5]),
      Some (ColumnIR ''a'' 0), Some (ColumnIR ''b'' 1)])
   \<and> JoinHandler_Eval (map_of [(''inner'', INNER)])
     [Some (MemorySourceIR ''l''), Some (MemorySourceIR ''r''), Some (StringIR ''inner''),
      Some (StringIR ''a''), Some (StringIR ''b''), Some (StringIR ''_x''),
      Some (StringIR ''_y''), Some (TupleIR [5, 6]), Some (TupleIR [5, 6, 5])] (Dataframe 0)
     \<lparr>GetArg = (\<lambda>_. 0)(''right'' := 1, ''how'' := 2, ''left_on'' := 3, ''right_on'' := 4,
         ''suffixes'' := 5), kwargs = []\<rparr> =
     (Inl (IRNodeError 5
        '''suffixes' must be a tuple with 2 strings for the left and right suffixes. Received $0''
        [SNode kString]),
     [Some (MemorySourceIR ''l''), Some (MemorySourceIR ''r''), Some (StringIR ''inner''),
      Some (StringIR ''a''), Some (StringIR ''b''), Some (StringIR ''_x''),
      Some (StringIR ''_y''), Some (TupleIR [5, 6]), Some (TupleIR [5, 6, 5]),
      Some (ColumnIR ''a'' 0), Some (ColumnIR ''b'' 1)])"
proof -
  let ?g = "[Some (MemorySourceIR ''l''), Some (MemorySourceIR ''r''), Some (StringIR ''inner''),
      Some (StringIR ''a''), Some (StringIR ''b''), Some (StringIR ''_x''),
      Some (StringIR ''_y''), Some (TupleIR [5, 6]), Some (TupleIR [5, 6, 5])]"
  let ?jt = "map_of [(''inner'', INNER)]"
  let ?a7 = "\<lparr>GetArg = (\<lambda>_. 0)(''right'' := 1, ''how'' := 2, ''left_on'' := 3,
      ''right_on'' := 4, ''suffixes'' := 7), kwargs = []\<rparr>"
  let ?a8 = "\<lparr>GetArg = (\<lambda>_. 0)(''right'' := 1, ''how'' := 2, ''left_on'' := 3,
      ''right_on'' := 4, ''suffixes'' := 8), kwargs = []\<rparr>"
  let ?a5 = "\<lparr>GetArg = (\<lambda>_. 0)(''right'' := 1, ''how'' := 2, ''left_on'' := 3,
      ''right_on'' := 4, ''suffixes'' := 5), kwargs = []\<rparr>"
  have op: "IsOperator (MemorySourceIR ''r'')" by (simp add: IsOperator_def IsExpression_def)
  have jt: "?jt ''inner'' = Some INNER" by simp
  have len: "length [''a''] = length [''b'']" by simp
  have r7: "Get ?g (GetArg ?a7 ''right'') = Some (MemorySourceIR ''r'')" by (simp add: Get_def)
  have h7: "Get ?g (GetArg ?a7 ''how'') = Some (StringIR ''inner'')" by (simp add: Get_def)
  have l7: "is_labels ?g (GetArg ?a7 ''left_on'') [''a'']" by (simp add: is_labels_def Get_def)
  have o7: "is_labels ?g (GetArg ?a7 ''right_on'') [''b'']" by (simp add: is_labels_def Get_def)
  have r8: "Get ?g (GetArg ?a8 ''right'') = Some (MemorySourceIR ''r'')" by (simp add: Get_def)
  have h8: "Get ?g (GetArg ?a8 ''how'') = Some (StringIR ''inner'')" by (simp add: Get_def)
  have l8: "is_labels ?g (GetArg ?a8 ''left_on'') [''a'']" by (simp add: is_labels_def Get_def)
  have o8: "is_labels ?g (GetArg ?a8 ''right_on'') [''b'']" by (simp add: is_labels_def Get_def)
  have r5: "Get ?g (GetArg ?a5 ''right'') = Some (MemorySourceIR ''r'')" by (simp add: Get_def)
  have h5: "Get ?g (GetArg ?a5 ''how'') = Some (StringIR ''inner'')" by (simp add: Get_def)
  have l5: "is_labels ?g (GetArg ?a5 ''left_on'') [''a'']" by (simp add: is_labels_def Get_def)
  have o5: "is_labels ?g (GetArg ?a5 ''right_on'') [''b'']" by (simp add: is_labels_def Get_def)
  have s7: "two_strings ?g (GetArg ?a7 ''suffixes'')"
    by (simp add: two_strings_def Get_def IsTuple_def IsString_def)
  have n8: "Get ?g (GetArg ?a8 ''suffixes'') = Some (TupleIR [5, 6, 5])" by (simp add: Get_def)
  have s8: "\<not> two_strings ?g (GetArg ?a8 ''suffixes'')"
    by (simp add: two_strings_def Get_def)
  have n5: "Get ?g (GetArg ?a5 ''suffixes'') = Some (StringIR ''_x'')" by (simp add: Get_def)
  have s5: "\<not> two_strings ?g (GetArg ?a5 ''suffixes'')"
    by (simp add: two_strings_def Get_def IsList_def IsTuple_def)
  note T7 = JoinHandler_suffix_arity [where join_types = ?jt and df = "Dataframe 0",
      OF r7 op h7 jt l7 o7 len]
  note T8 = JoinHandler_suffix_arity [where join_types = ?jt and sn = "TupleIR [5, 6, 5]"
      and df = "Dataframe 0", OF r8 op h8 jt l8 o8 len]
  note T5 = JoinHandler_suffix_arity [where join_types = ?jt and sn = "StringIR ''_x''"
      and df = "Dataframe 0", OF r5 op h5 jt l5 o5 len]
  have ok: "\<exists>df' g'. JoinHandler_Eval ?jt ?g (Dataframe 0) ?a7 = (Inr df', g')"
    using T7 [THEN conjunct1] s7 by (rule iffD2)
  have e8: "JoinHandler_Eval ?jt ?g (Dataframe 0) ?a8 =
     (Inl (IRNodeError 8 '''suffixes' must be a tuple with 2 elements. Received $0'' [SNat 3]),
      ?g @ [Some (ColumnIR ''a'' 0), Some (ColumnIR ''b'' 1)])"
    using T8 [THEN conjunct2, rule_format, OF n8 s8]
    by (simp add: CollectionWithChildren_def Get_def IsString_def)
  have e5: "JoinHandler_Eval ?jt ?g (Dataframe 0) ?a5 =
     (Inl (IRNodeError 5
        '''suffixes' must be a tuple with 2 strings for the left and right suffixes. Received $0''
        [SNode kString]),
      ?g @ [Some (ColumnIR ''a'' 0), Some (ColumnIR ''b'' 1)])"
    using T5 [THEN conjunct2, rule_format, OF n5 s5]
    by (simp add: CollectionWithChildren_def)
  from ok e8 e5 show ?thesis by simp
qed

text \<open>
  C1. Let \<open>left_on\<close> and \<open>right_on\<close> each be a single string or a list of strings, giving
  the labels \<open>ls\<close> and \<open>rs\<close> of the same length \<open>N\<close>, and let the other arguments be valid.
  Then the Join handler returns a dataframe over a new Join node whose parents are the
  dataframe's operator and \<open>right\<close>, in this order, and which has exactly \<open>N\<close> equality
  conditions; the \<open>i\<close>-th condition pairs a Column named \<open>ls ! i\<close> at parent index 0 with a
  Column named \<open>rs ! i\<close> at parent index 1.
\<close>

theorem JoinHandler_equality_conditions:
  assumes "Get g (GetArg args ''right'') = Some rn" and "IsOperator rn"
    and "Get g (GetArg args ''how'') = Some (StringIR how)" and "join_types how = Some t"
    and "is_labels g (GetArg args ''left_on'') ls"
    and "is_labels g (GetArg args ''right_on'') rs"
    and "length ls = length rs"
    and "two_strings g (GetArg args ''suffixes'')"
  shows "\<exists>g' join_op conds suffix_strs.
           JoinHandler_Eval join_types g df args = (Inr (Dataframe join_op), g')
         \<and> Get g' join_op = Some (JoinIR [op df, GetArg args ''right''] t conds suffix_strs)
         \<and> length conds = length ls
         \<and> (\<forall>i<length ls. Get g' (fst (conds ! i)) = Some (ColumnIR (ls ! i) 0)
                          \<and> Get g' (snd (conds ! i)) = Some (ColumnIR (rs ! i) 1))"
proof -
  let ?n = "length g" and ?N = "length ls"
  let ?L = "map (\<lambda>s. Some (ColumnIR s 0)) ls" and ?R = "map (\<lambda>s. Some (ColumnIR s 1)) rs"
  from Join_valid [where jt = join_types, OF assms, of df] obtain a b where run:
    "JoinHandler_Eval join_types g df args =
       (Inr (Dataframe (?n + ?N + length rs)),
        g @ ?L @ ?R @ [Some (JoinIR [op df, GetArg args ''right''] t
             (zip [?n ..< ?n + ?N] [?n + ?N ..< ?n + ?N + length rs]) [a, b])])"
    by blast
  let ?conds = "zip [?n ..< ?n + ?N] [?n + ?N ..< ?n + ?N + length rs]"
  let ?J = "Some (JoinIR [op df, GetArg args ''right''] t ?conds [a, b])"
  let ?g' = "g @ ?L @ ?R @ [?J]"
  have j: "Get ?g' (?n + ?N + length rs) = ?J"
    by (simp add: Get_def nth_append)
  have len: "length ?conds = ?N" using assms(7) by simp
  have cols: "\<forall>i<?N. Get ?g' (fst (?conds ! i)) = Some (ColumnIR (ls ! i) 0)
                    \<and> Get ?g' (snd (?conds ! i)) = Some (ColumnIR (rs ! i) 1)"
    using assms(7) by (auto simp: Get_def nth_append)
  from run j len cols show ?thesis by blast
qed

theorem JoinHandler_equality_conditions_witness:
  "\<exists>g' join_op conds suffix_strs.
     JoinHandler_Eval (map_of [(''inner'', INNER)])
       [Some (MemorySourceIR ''l''), Some (MemorySourceIR ''r''), Some (StringIR ''inner''),
        Some (StringIR ''a''), Some (StringIR ''b''), Some (ListIR [3, 4]),
        Some (StringIR ''c''), Some (StringIR ''d''), Some (ListIR [6, 7]),
        Some (StringIR ''_x''), Some (StringIR ''_y''), Some (TupleIR [9, 10])] (Dataframe 0)
       \<lparr>GetArg = (\<lambda>_. 0)(''right'' := 1, ''how'' := 2, ''left_on'' := 5, ''right_on'' := 8,
           ''suffixes'' := 11), kwargs = []\<rparr> = (Inr (Dataframe join_op), g')
   \<and> Get g' join_op = Some (JoinIR [0, 1] INNER conds suffix_strs)
   \<and> length conds = 2
   \<and> Get g' (fst (conds ! 0)) = Some (ColumnIR ''a'' 0)
   \<and> Get g' (snd (conds ! 0)) = Some (ColumnIR ''c'' 1)
   \<and> Get g' (fst (conds ! 1)) = Some (ColumnIR ''b'' 0)
   \<and> Get g' (snd (conds ! 1)) = Some (ColumnIR ''d'' 1)"
proof -
  let ?g = "[Some (MemorySourceIR ''l''), Some (MemorySourceIR ''r''), Some (StringIR ''inner''),
        Some (StringIR ''a''), Some (StringIR ''b''), Some (ListIR [3, 4]),
        Some (StringIR ''c''), Some (StringIR ''d''), Some (ListIR [6, 7]),
        Some (StringIR ''_x''), Some (StringIR ''_y''), Some (TupleIR [9, 10])]"
  let ?jt = "map_of [(''inner'', INNER)]"
  let ?a = "\<lparr>GetArg = (\<lambda>_. 0)(''right'' := 1, ''how'' := 2, ''left_on'' := 5,
      ''right_on'' := 8, ''suffixes'' := 11), kwargs = []\<rparr>"
  have op: "IsOperator (MemorySourceIR ''r'')" by (simp add: IsOperator_def IsExpression_def)
  have jt: "?jt ''inner'' = Some INNER" by simp
  have len: "length [''a'', ''b''] = length [''c'', ''d'']" by simp
  have r: "Get ?g (GetArg ?a ''right'') = Some (MemorySourceIR ''r'')" by (simp add: Get_def)
  have h: "Get ?g (GetArg ?a ''how'') = Some (StringIR ''inner'')" by (simp add: Get_def)
  have l: "is_labels ?g (GetArg ?a ''left_on'') [''a'', ''b'']"
    by (simp add: is_labels_def Get_def)
  have o: "is_labels ?g (GetArg ?a ''right_on'') [''c'', ''d'']"
    by (simp add: is_labels_def Get_def)
  have s: "two_strings ?g (GetArg ?a ''suffixes'')"
    by (simp add: two_strings_def Get_def IsTuple_def IsString_def)
  from JoinHandler_equality_conditions
    [where join_types = ?jt, OF r op h jt l o len s, of "Dataframe 0"]
  obtain g' join_op conds suffix_strs where
    run: "JoinHandler_Eval ?jt ?g (Dataframe 0) ?a = (Inr (Dataframe join_op), g')"
    and j: "Get g' join_op = Some (JoinIR [0, 1] INNER conds suffix_strs)"
    and n: "length conds = 2"
    and c: "\<forall>i<2. Get g' (fst (conds ! i)) = Some (ColumnIR ([''a'', ''b''] ! i) 0)
                 \<and> Get g' (snd (conds ! i)) = Some (ColumnIR ([''c'', ''d''] ! i) 1)"
    by auto
  from c have "Get g' (fst (conds ! 0)) = Some (ColumnIR ''a'' 0)"
    and "Get g' (snd (conds ! 0)) = Some (ColumnIR ''c'' 1)"
    and "Get g' (fst (conds ! 1)) = Some (ColumnIR ''b'' 0)"
    and "Get g' (snd (conds ! 1)) = Some (ColumnIR ''d'' 1)"
    by force+
  with run j n show ?thesis by blast
qed

section \<open>Aggregate\<close>

lemma ParseNameTuple_Inr:
  assumes "ParseNameTuple g t = (Inr f, g1)"
  shows "\<exists>s col fname. Get g t = Some (TupleIR [s, f]) \<and> Get g s = Some (StringIR col) \<and>
           Get g f = Some (FuncIR fname []) \<and>
           g1 = (g @ [Some (ColumnIR col 0)])[f := Some (FuncIR fname [length g]), t := None]"
proof -
  from assms obtain children where t: "Get g t = Some (TupleIR children)"
    by (cases "Get g t"; cases "the (Get g t)") (auto simp: ParseNameTuple_def)
  from assms t have len: "length children = 2"
    by (auto simp: ParseNameTuple_def split: if_splits)
  then obtain s f' where ch: "children = [s, f']"
    by (cases children; cases "tl children") auto
  from assms t ch obtain n1 where n1: "Get g s = Some n1"
    by (cases "Get g s") (auto simp: ParseNameTuple_def)
  from assms t ch n1 obtain col where col: "n1 = StringIR col"
    by (cases n1) (auto simp: ParseNameTuple_def IsString_def)
  from assms t ch n1 col obtain n2 where n2: "Get g f' = Some n2"
    by (cases "Get g f'") (auto simp: ParseNameTuple_def IsString_def)
  from assms t ch n1 col n2 obtain fname fargs where fn: "n2 = FuncIR fname fargs"
    by (cases n2) (auto simp: ParseNameTuple_def IsString_def IsFunc_def)
  from assms t ch n1 col n2 fn have nil: "fargs = []"
    by (auto simp: ParseNameTuple_def IsString_def IsFunc_def split: if_splits)
  have f'lt: "f' < length g" using n2 by (rule Get_Some_less)
  have add: "AddArg (g @ [Some (ColumnIR col 0)]) f' (length g) =
      (Inr (), (g @ [Some (ColumnIR col 0)])[f' := Some (FuncIR fname [length g])])"
    using n2 fn nil f'lt by (simp add: AddArg_def Get_append_old)
  from assms t ch n1 col n2 fn nil add
  have "f = f'" and "g1 = (g @ [Some (ColumnIR col 0)])[f' := Some (FuncIR fname [length g]), t := None]"
    by (auto simp: ParseNameTuple_def IsString_def IsFunc_def CreateNode_def DeleteNode_def
        split: if_splits option.splits)
  with t ch n1 col n2 fn nil show ?thesis by simp
qed


lemma Get_update_same: "i < length g \<Longrightarrow> Get (g[i := x]) i = x"
  by (simp add: Get_def)

lemma Get_update_other: "j \<noteq> i \<Longrightarrow> Get (g[i := x]) j = Get g j"
  by (simp add: Get_def)

lemma agg_frame_refl: "agg_frame g g"
  by (simp add: agg_frame_def)

lemma agg_frame_step:
  assumes t: "Get g t = Some (TupleIR [s, f])" and f: "Get g f = Some (FuncIR fname [])"
    and g1: "g1 = (g @ [Some (ColumnIR col 0)])[f := Some (FuncIR fname [length g]), t := None]"
  shows "agg_frame g g1"
proof -
  have tl: "t < length g" using t by (rule Get_Some_less)
  have fl: "f < length g" using f by (rule Get_Some_less)
  have ne: "t \<noteq> f" using t f by auto
  have old: "\<And>j. j < length g \<Longrightarrow> j \<noteq> t \<Longrightarrow> j \<noteq> f \<Longrightarrow> Get g1 j = Get g j"
    unfolding g1 by (simp add: Get_update_other Get_append_old)
  have gt: "Get g1 t = None" unfolding g1 using tl by (simp add: Get_update_same)
  have gf: "Get g1 f = Some (FuncIR fname [length g])"
    unfolding g1 using fl ne by (simp add: Get_update_other Get_update_same)
  have new: "Get g1 (length g) = Some (ColumnIR col 0)"
    unfolding g1 using tl fl by (simp add: Get_update_other Get_snoc_new)
  have len: "length g1 = Suc (length g)" unfolding g1 by simp
  show ?thesis
    unfolding agg_frame_def
  proof (intro conjI allI impI)
    show "length g \<le> length g1" using len by simp
  next
    fix j assume "j < length g"
    then show "Get g1 j = Get g j \<or>
         (Get g1 j = None \<and> (\<exists>cs. Get g j = Some (TupleIR cs))) \<or>
         (\<exists>fn c. Get g j = Some (FuncIR fn []) \<and> Get g1 j = Some (FuncIR fn [c]))"
      using old [of j] gt gf t f by (cases "j = t"; cases "j = f") auto
  next
    fix j assume "length g \<le> j" and "j < length g1"
    then have "j = length g" using len by simp
    then show "\<exists>col. Get g1 j = Some (ColumnIR col 0)" using new by simp
  qed
qed

lemma agg_desugared_step:
  assumes t: "Get g t = Some (TupleIR [s, f])" and s: "Get g s = Some (StringIR col)"
    and f: "Get g f = Some (FuncIR fname [])"
    and g1: "g1 = (g @ [Some (ColumnIR col 0)])[f := Some (FuncIR fname [length g]), t := None]"
  shows "agg_desugared g g1 t f"
proof -
  have tl: "t < length g" using t by (rule Get_Some_less)
  have fl: "f < length g" using f by (rule Get_Some_less)
  have ne: "t \<noteq> f" using t f by auto
  have gt: "Get g1 t = None" unfolding g1 using tl by (simp add: Get_update_same)
  have gf: "Get g1 f = Some (FuncIR fname [length g])"
    unfolding g1 using fl ne by (simp add: Get_update_other Get_update_same)
  have new: "Get g1 (length g) = Some (ColumnIR col 0)"
    unfolding g1 using tl fl by (simp add: Get_update_other Get_snoc_new)
  from t s f gt gf new show ?thesis unfolding agg_desugared_def by blast
qed

lemma agg_frame_keeps:
  assumes "agg_frame g g'" and "Get g j = x"
    and "j < length g" and "\<forall>cs. x \<noteq> Some (TupleIR cs)" and "\<forall>fn. x \<noteq> Some (FuncIR fn [])"
  shows "Get g' j = x"
  using assms unfolding agg_frame_def by blast

lemma agg_frame_back:
  assumes fr: "agg_frame g g'" and x: "Get g' j = Some n"
    and "type_of n \<noteq> kColumn" and "\<forall>fn c. n \<noteq> FuncIR fn [c]"
  shows "Get g j = Some n"
proof -
  have jl: "j < length g'" using x by (rule Get_Some_less)
  have "j < length g"
  proof (rule ccontr)
    assume "\<not> j < length g"
    then have "length g \<le> j" by simp
    with fr jl obtain col where "Get g' j = Some (ColumnIR col 0)"
      unfolding agg_frame_def by blast
    with x assms(3) show False by auto
  qed
  with fr have "Get g' j = Get g j \<or>
         (Get g' j = None \<and> (\<exists>cs. Get g j = Some (TupleIR cs))) \<or>
         (\<exists>fn c. Get g j = Some (FuncIR fn []) \<and> Get g' j = Some (FuncIR fn [c]))"
    unfolding agg_frame_def by blast
  with x assms(4) show ?thesis by auto
qed

lemma agg_frame_length: "agg_frame g g' \<Longrightarrow> length g \<le> length g'"
  by (simp add: agg_frame_def)

lemma agg_desugared_forward:
  assumes d: "agg_desugared g g1 t f" and fr: "agg_frame g1 g'"
  shows "agg_desugared g g' t f"
proof -
  from d obtain s col fname c where t: "Get g t = Some (TupleIR [s, f])"
    and s: "Get g s = Some (StringIR col)" and f: "Get g f = Some (FuncIR fname [])"
    and f1: "Get g1 f = Some (FuncIR fname [c])" and c: "length g \<le> c"
    and c1: "Get g1 c = Some (ColumnIR col 0)" and t1: "Get g1 t = None"
    unfolding agg_desugared_def by blast
  have cl: "c < length g1" using c1 by (rule Get_Some_less)
  have fl: "f < length g1" using f1 by (rule Get_Some_less)
  have tl: "t < length g1" using Get_Some_less [OF t] c cl by simp
  have "Get g' f = Some (FuncIR fname [c])"
    using fr f1 fl by (rule agg_frame_keeps) simp_all
  moreover have "Get g' c = Some (ColumnIR col 0)"
    using fr c1 cl by (rule agg_frame_keeps) simp_all
  moreover have "Get g' t = None"
    using fr t1 tl by (rule agg_frame_keeps) simp_all
  ultimately show ?thesis using t s f c unfolding agg_desugared_def by blast
qed

lemma agg_desugared_backward:
  assumes d: "agg_desugared g1 g' t f" and fr: "agg_frame g g1"
  shows "agg_desugared g g' t f"
proof -
  from d obtain s col fname c where t: "Get g1 t = Some (TupleIR [s, f])"
    and s: "Get g1 s = Some (StringIR col)" and f: "Get g1 f = Some (FuncIR fname [])"
    and f1: "Get g' f = Some (FuncIR fname [c])" and c: "length g1 \<le> c"
    and c1: "Get g' c = Some (ColumnIR col 0)" and t1: "Get g' t = None"
    unfolding agg_desugared_def by blast
  have "Get g t = Some (TupleIR [s, f])" using fr t by (rule agg_frame_back) simp_all
  moreover have "Get g s = Some (StringIR col)" using fr s by (rule agg_frame_back) simp_all
  moreover have "Get g f = Some (FuncIR fname [])" using fr f by (rule agg_frame_back) simp_all
  moreover have "length g \<le> c" using agg_frame_length [OF fr] c by simp
  ultimately show ?thesis using f1 c1 t1 unfolding agg_desugared_def by blast
qed

lemma agg_frame_trans:
  assumes a: "agg_frame g g1" and b: "agg_frame g1 g2"
  shows "agg_frame g g2"
  unfolding agg_frame_def
proof (intro conjI allI impI)
  show "length g \<le> length g2" using agg_frame_length [OF a] agg_frame_length [OF b] by simp
next
  fix j assume j: "j < length g"
  then have j1: "j < length g1" using agg_frame_length [OF a] by simp
  from a j have d1: "Get g1 j = Get g j \<or>
         (Get g1 j = None \<and> (\<exists>cs. Get g j = Some (TupleIR cs))) \<or>
         (\<exists>fn c. Get g j = Some (FuncIR fn []) \<and> Get g1 j = Some (FuncIR fn [c]))"
    unfolding agg_frame_def by blast
  from b j1 have d2: "Get g2 j = Get g1 j \<or>
         (Get g2 j = None \<and> (\<exists>cs. Get g1 j = Some (TupleIR cs))) \<or>
         (\<exists>fn c. Get g1 j = Some (FuncIR fn []) \<and> Get g2 j = Some (FuncIR fn [c]))"
    unfolding agg_frame_def by blast
  from d1 d2 show "Get g2 j = Get g j \<or>
         (Get g2 j = None \<and> (\<exists>cs. Get g j = Some (TupleIR cs))) \<or>
         (\<exists>fn c. Get g j = Some (FuncIR fn []) \<and> Get g2 j = Some (FuncIR fn [c]))"
    by (elim disjE conjE exE; simp)
next
  fix j assume lo: "length g \<le> j" and hi: "j < length g2"
  show "\<exists>col. Get g2 j = Some (ColumnIR col 0)"
  proof (cases "j < length g1")
    case True
    with a lo obtain col where c: "Get g1 j = Some (ColumnIR col 0)"
      unfolding agg_frame_def by blast
    have "Get g2 j = Some (ColumnIR col 0)"
      using b c True by (rule agg_frame_keeps) simp_all
    then show ?thesis by blast
  next
    case False
    then have "length g1 \<le> j" by simp
    with b hi show ?thesis unfolding agg_frame_def by blast
  qed
qed

lemma AggHandler_kwargs_Inr:
  "AggHandler_kwargs g kws acc = (Inr exprs, g') \<Longrightarrow>
   agg_frame g g' \<and>
   (\<exists>new. exprs = acc @ new \<and> map fst new = map fst kws \<and>
      (\<forall>i<length kws. agg_desugared g g' (snd (kws ! i)) (snd (new ! i))))"
proof (induction kws arbitrary: g acc)
  case Nil
  then show ?case by (simp add: agg_frame_refl)
next
  case (Cons kw kws)
  obtain name t where kw: "kw = (name, t)" by (cases kw)
  from Cons.prems kw obtain f g1 where p: "ParseNameTuple g t = (Inr f, g1)"
    and rest: "AggHandler_kwargs g1 kws (acc @ [(name, f)]) = (Inr exprs, g')"
    by (auto split: option.splits if_splits prod.splits sum.splits)
  from ParseNameTuple_Inr [OF p] obtain s col fname where
    t: "Get g t = Some (TupleIR [s, f])" and s: "Get g s = Some (StringIR col)"
    and f: "Get g f = Some (FuncIR fname [])"
    and g1: "g1 = (g @ [Some (ColumnIR col 0)])[f := Some (FuncIR fname [length g]), t := None]"
    by blast
  have fr1: "agg_frame g g1" using t f g1 by (rule agg_frame_step)
  have d1: "agg_desugared g g1 t f" using t s f g1 by (rule agg_desugared_step)
  from Cons.IH [OF rest] obtain new where fr2: "agg_frame g1 g'"
    and ex: "exprs = (acc @ [(name, f)]) @ new" and names: "map fst new = map fst kws"
    and ds: "\<forall>i<length kws. agg_desugared g1 g' (snd (kws ! i)) (snd (new ! i))"
    by blast
  have fr: "agg_frame g g'" using fr1 fr2 by (rule agg_frame_trans)
  have all: "\<forall>i<length (kw # kws). agg_desugared g g' (snd ((kw # kws) ! i)) (snd (((name, f) # new) ! i))"
  proof (intro allI impI)
    fix i assume i: "i < length (kw # kws)"
    show "agg_desugared g g' (snd ((kw # kws) ! i)) (snd (((name, f) # new) ! i))"
    proof (cases i)
      case 0
      with kw agg_desugared_forward [OF d1 fr2] show ?thesis by simp
    next
      case (Suc k)
      with i ds have "agg_desugared g1 g' (snd (kws ! k)) (snd (new ! k))" by simp
      from agg_desugared_backward [OF this fr1] Suc show ?thesis by simp
    qed
  qed
  have "exprs = acc @ ((name, f) # new)" using ex by simp
  moreover have "map fst ((name, f) # new) = map fst (kw # kws)" using names kw by simp
  ultimately show ?case using fr all by blast
qed


lemma AggHandler_kwargs_append:
  "AggHandler_kwargs g (pre @ rest) acc =
     (case AggHandler_kwargs g pre acc of
        (Inl e, g1) \<Rightarrow> (Inl e, g1)
      | (Inr acc1, g1) \<Rightarrow> AggHandler_kwargs g1 rest acc1)"
proof (induction pre arbitrary: g acc)
  case Nil
  then show ?case by simp
next
  case (Cons kw pre)
  obtain name t where kw: "kw = (name, t)" by (cases kw)
  show ?case
    by (simp add: kw Cons.IH split: option.splits prod.splits sum.splits)
qed

lemma ParseNameTuple_with_arguments:
  assumes "Get g t = Some (TupleIR [s, f])" and "Get g s = Some (StringIR col)"
    and "Get g f = Some (FuncIR fname fargs)" and "fargs \<noteq> []"
  shows "ParseNameTuple g t = (Inl (IRNodeError f ''Unexpected aggregate function'' []), g)"
  using assms by (simp add: ParseNameTuple_def IsString_def IsFunc_def)

text \<open>
  C10. The function in a keyword's tuple must come without evaluation arguments. When
  the loop over the keywords reaches a keyword whose tuple is a string and a function
  that already has one or more arguments, \<^verbatim>\<open>ParseNameTuple\<close> answers with the error
  "Unexpected aggregate function" and the Aggregate handler returns this error; the
  graph is left as it was when the keyword was reached, so no BlockingAgg node is
  produced.
\<close>

theorem AggHandler_rejects_function_with_arguments:
  assumes "kwargs args = pre @ (name, t) # post"
    and "AggHandler_kwargs g pre [] = (Inr acc, g1)"
    and "Get g1 t = Some (TupleIR [s, f])" and "Get g1 s = Some (StringIR col)"
    and "Get g1 f = Some (FuncIR fname fargs)" and "fargs \<noteq> []"
  shows "ParseNameTuple g1 t = (Inl (IRNodeError f ''Unexpected aggregate function'' []), g1)
       \<and> AggHandler_Eval g df args =
           (Inl (IRNodeError f ''Unexpected aggregate function'' []), g1)"
proof -
  have p: "ParseNameTuple g1 t = (Inl (IRNodeError f ''Unexpected aggregate function'' []), g1)"
    using assms(3,4,5,6) by (rule ParseNameTuple_with_arguments)
  have "AggHandler_kwargs g1 ((name, t) # post) acc =
      (Inl (IRNodeError f ''Unexpected aggregate function'' []), g1)"
    using assms(3) p by (simp add: IsTuple_def)
  then have "AggHandler_kwargs g (kwargs args) [] =
      (Inl (IRNodeError f ''Unexpected aggregate function'' []), g1)"
    by (simp add: assms(1,2) AggHandler_kwargs_append)
  then show ?thesis using p by (simp add: AggHandler_Eval_def)
qed

theorem AggHandler_rejects_function_with_arguments_witness:
  "AggHandler_Eval
     [Some (MemorySourceIR ''t''), Some (StringIR ''x''), Some (FuncIR ''mean'' []),
      Some (TupleIR [1, 2]), Some (StringIR ''y''), Some (FuncIR ''sum'' [4]),
      Some (TupleIR [4, 5])]
     (Dataframe 0) \<lparr>GetArg = (\<lambda>_. 0), kwargs = [(''a'', 3), (''b'', 6)]\<rparr> =
   (Inl (IRNodeError 5 ''Unexpected aggregate function'' []),
     [Some (MemorySourceIR ''t''), Some (StringIR ''x''), Some (FuncIR ''mean'' [7]),
      None, Some (StringIR ''y''), Some (FuncIR ''sum'' [4]), Some (TupleIR [4, 5]),
      Some (ColumnIR ''x'' 0)])"
proof -
  let ?g = "[Some (MemorySourceIR ''t''), Some (StringIR ''x''), Some (FuncIR ''mean'' []),
      Some (TupleIR [1, 2]), Some (StringIR ''y''), Some (FuncIR ''sum'' [4]),
      Some (TupleIR [4, 5])]"
  let ?g1 = "[Some (MemorySourceIR ''t''), Some (StringIR ''x''), Some (FuncIR ''mean'' [7]),
      None, Some (StringIR ''y''), Some (FuncIR ''sum'' [4]), Some (TupleIR [4, 5]),
      Some (ColumnIR ''x'' 0)]"
  let ?args = "\<lparr>GetArg = (\<lambda>_. 0), kwargs = [(''a'', 3), (''b'', 6)]\<rparr>"
  have k: "kwargs ?args = [(''a'', 3)] @ (''b'', 6) # []" by simp
  have pre: "AggHandler_kwargs ?g [(''a'', 3)] [] = (Inr [(''a'', 2)], ?g1)"
    by (simp add: ParseNameTuple_def Get_def IsTuple_def IsString_def IsFunc_def
        CreateNode_def AddArg_def DeleteNode_def referenced_def refs_of_def)
  have t: "Get ?g1 6 = Some (TupleIR [4, 5])" by (simp add: Get_def)
  have s: "Get ?g1 4 = Some (StringIR ''y'')" by (simp add: Get_def)
  have f: "Get ?g1 5 = Some (FuncIR ''sum'' [4])" by (simp add: Get_def)
  have ne: "[4::nat] \<noteq> []" by simp
  from AggHandler_rejects_function_with_arguments [OF k pre t s f ne, of "Dataframe 0"]
  show ?thesis by simp
qed

text \<open>
  What every successful call of the Aggregate handler has done: the new node, its
  expressions, and, for each keyword, the tuple it consumed.
\<close>

lemma AggHandler_Eval_Inr:
  assumes "AggHandler_Eval g df args = (Inr df', g')"
  shows "\<exists>exprs. Get g' (op df') = Some (BlockingAggIR (op df) [] exprs)
      \<and> map fst exprs = map fst (kwargs args)
      \<and> (\<forall>i<length (kwargs args). \<exists>s col fname c.
            Get g (snd (kwargs args ! i)) = Some (TupleIR [s, snd (exprs ! i)])
          \<and> Get g s = Some (StringIR col)
          \<and> Get g (snd (exprs ! i)) = Some (FuncIR fname [])
          \<and> Get g' (snd (exprs ! i)) = Some (FuncIR fname [c])
          \<and> length g \<le> c \<and> Get g' c = Some (ColumnIR col 0)
          \<and> Get g' (snd (kwargs args ! i)) = None)"
proof -
  from assms obtain exprs g1 where
    loop: "AggHandler_kwargs g (kwargs args) [] = (Inr exprs, g1)"
    and g': "g' = g1 @ [Some (BlockingAggIR (op df) [] exprs)]"
    and df': "df' = Dataframe (length g1)"
    by (auto simp: AggHandler_Eval_def CreateNode_def split: prod.splits sum.splits)
  from AggHandler_kwargs_Inr [OF loop] have fr: "agg_frame g g1"
    and names: "map fst exprs = map fst (kwargs args)"
    and ds: "\<forall>i<length (kwargs args). agg_desugared g g1 (snd (kwargs args ! i)) (snd (exprs ! i))"
    by auto
  have node: "Get g' (op df') = Some (BlockingAggIR (op df) [] exprs)"
    unfolding g' df' by (simp add: Get_snoc_new)
  have each: "\<forall>i<length (kwargs args). \<exists>s col fname c.
            Get g (snd (kwargs args ! i)) = Some (TupleIR [s, snd (exprs ! i)])
          \<and> Get g s = Some (StringIR col)
          \<and> Get g (snd (exprs ! i)) = Some (FuncIR fname [])
          \<and> Get g' (snd (exprs ! i)) = Some (FuncIR fname [c])
          \<and> length g \<le> c \<and> Get g' c = Some (ColumnIR col 0)
          \<and> Get g' (snd (kwargs args ! i)) = None"
  proof (intro allI impI)
    fix i assume "i < length (kwargs args)"
    with ds obtain s col fname c where
      t: "Get g (snd (kwargs args ! i)) = Some (TupleIR [s, snd (exprs ! i)])"
      and s: "Get g s = Some (StringIR col)"
      and f: "Get g (snd (exprs ! i)) = Some (FuncIR fname [])"
      and f1: "Get g1 (snd (exprs ! i)) = Some (FuncIR fname [c])" and c: "length g \<le> c"
      and c1: "Get g1 c = Some (ColumnIR col 0)" and t1: "Get g1 (snd (kwargs args ! i)) = None"
      unfolding agg_desugared_def by blast
    have tl: "snd (kwargs args ! i) < length g1"
      using Get_Some_less [OF t] agg_frame_length [OF fr] by simp
    have "Get g' (snd (exprs ! i)) = Some (FuncIR fname [c])"
      unfolding g' using f1 by (rule Get_append_Some)
    moreover have "Get g' c = Some (ColumnIR col 0)"
      unfolding g' using c1 by (rule Get_append_Some)
    moreover have "Get g' (snd (kwargs args ! i)) = None"
      unfolding g' using tl t1 by (simp add: Get_append_old)
    ultimately show "\<exists>s col fname c.
            Get g (snd (kwargs args ! i)) = Some (TupleIR [s, snd (exprs ! i)])
          \<and> Get g s = Some (StringIR col)
          \<and> Get g (snd (exprs ! i)) = Some (FuncIR fname [])
          \<and> Get g' (snd (exprs ! i)) = Some (FuncIR fname [c])
          \<and> length g \<le> c \<and> Get g' c = Some (ColumnIR col 0)
          \<and> Get g' (snd (kwargs args ! i)) = None"
      using t s f c by blast
  qed
  from node names each show ?thesis by blast
qed

text \<open>
  The conditions under which the Aggregate handler succeeds: every keyword value is
  a well-formed aggregate pair, no two keywords share a tuple or a function, and no
  node refers to a keyword's tuple (so that the tuple can be deleted).
\<close>

lemma agg_pair_D:
  assumes "agg_pair g t f"
  shows "\<exists>s col fname. Get g t = Some (TupleIR [s, f]) \<and> Get g s = Some (StringIR col) \<and>
           Get g f = Some (FuncIR fname [])"
proof -
  from assms obtain cs where t: "Get g t = Some (TupleIR cs)"
    by (cases "Get g t"; cases "the (Get g t)") (auto simp: agg_pair_def)
  from assms t have len: "length cs = 2" and f1: "cs ! 1 = f"
    and s: "case Get g (cs ! 0) of Some n \<Rightarrow> IsString n | None \<Rightarrow> False"
    and f: "case Get g f of Some (FuncIR fname fargs) \<Rightarrow> fargs = [] | _ \<Rightarrow> False"
    by (simp_all add: agg_pair_def)
  from len obtain a b where cs: "cs = [a, b]" by (cases cs; cases "tl cs") auto
  with f1 have b: "b = f" by simp
  from s cs obtain col where col: "Get g a = Some (StringIR col)"
    by (cases "Get g a"; cases "the (Get g a)") (auto simp: IsString_def)
  from f obtain fname where "Get g f = Some (FuncIR fname [])"
    by (cases "Get g f"; cases "the (Get g f)") auto
  with t cs b col show ?thesis by blast
qed

lemma agg_pair_I:
  assumes "Get g t = Some (TupleIR [s, f])" and "Get g s = Some (StringIR col)"
    and "Get g f = Some (FuncIR fname [])"
  shows "agg_pair g t f"
  using assms by (simp add: agg_pair_def IsString_def)

lemma ParseNameTuple_ok:
  assumes t: "Get g t = Some (TupleIR [s, f])" and s: "Get g s = Some (StringIR col)"
    and f: "Get g f = Some (FuncIR fname [])" and nr: "\<not> referenced g t"
  shows "ParseNameTuple g t =
     (Inr f, (g @ [Some (ColumnIR col 0)])[f := Some (FuncIR fname [length g]), t := None])"
proof -
  let ?g1 = "g @ [Some (ColumnIR col 0)]"
  let ?g2 = "?g1[f := Some (FuncIR fname [length g])]"
  have tl: "t < length g" using t by (rule Get_Some_less)
  have fl: "f < length g" using f by (rule Get_Some_less)
  have ne: "t \<noteq> f" using t f by auto
  have f1: "Get ?g1 f = Some (FuncIR fname [])" using f by (rule Get_append_Some)
  have add: "AddArg ?g1 f (length g) = (Inr (), ?g2)"
    using f1 by (simp add: AddArg_def)
  have t2: "Get ?g2 t = Some (TupleIR [s, f])"
    using t ne by (simp add: Get_update Get_append_Some)
  have nr2: "\<not> referenced ?g2 t"
  proof
    assume "referenced ?g2 t"
    from referenced_update [OF this] have "referenced ?g1 t \<or> t = length g"
      by (simp add: refs_of_def)
    with tl have "referenced ?g1 t" by simp
    then have "referenced g t" by (simp add: referenced_snoc refs_of_def)
    with nr show False by simp
  qed
  have del: "DeleteNode ?g2 t = (Inr (), ?g2[t := None])"
    using t2 nr2 by (simp add: DeleteNode_def)
  show ?thesis
    using t s f add del by (simp add: ParseNameTuple_def IsString_def IsFunc_def CreateNode_def)
qed

lemma agg_step_Get:
  assumes t: "Get g t = Some (TupleIR cs)" and f: "Get g f = Some (FuncIR fname fargs)"
    and "j \<noteq> t" and "j \<noteq> f" and "Get g j = Some n"
  shows "Get ((g @ [Some c])[f := x, t := None]) j = Some n"
  using assms by (simp add: Get_update Get_append_Some)

lemma agg_pair_step:
  assumes t: "Get g t = Some (TupleIR [s, f])" and f: "Get g f = Some (FuncIR fname [])"
    and p: "agg_pair g t' f'" and ne: "t' \<noteq> t" "f' \<noteq> f"
  shows "agg_pair ((g @ [Some c])[f := x, t := None]) t' f'"
proof -
  from agg_pair_D [OF p] obtain s' col' fname' where
    t': "Get g t' = Some (TupleIR [s', f'])" and s': "Get g s' = Some (StringIR col')"
    and f': "Get g f' = Some (FuncIR fname' [])" by blast
  have a: "t' \<noteq> f" using t' f by auto
  have b: "s' \<noteq> t" using s' t by auto
  have c: "s' \<noteq> f" using s' f by auto
  have d: "f' \<noteq> t" using f' t by auto
  have "Get ((g @ [Some c])[f := x, t := None]) t' = Some (TupleIR [s', f'])"
    using t f ne(1) a t' by (rule agg_step_Get)
  moreover have "Get ((g @ [Some c])[f := x, t := None]) s' = Some (StringIR col')"
    using t f b c s' by (rule agg_step_Get)
  moreover have "Get ((g @ [Some c])[f := x, t := None]) f' = Some (FuncIR fname' [])"
    using t f d ne(2) f' by (rule agg_step_Get)
  ultimately show ?thesis by (rule agg_pair_I)
qed

lemma agg_step_unreferenced:
  assumes nr: "\<not> referenced g k" and k: "k < length g"
  shows "\<not> referenced ((g @ [Some (ColumnIR col 0)])[f := Some (FuncIR fname [length g]), t := None]) k"
proof
  assume "referenced ((g @ [Some (ColumnIR col 0)])[f := Some (FuncIR fname [length g]), t := None]) k"
  then have "referenced ((g @ [Some (ColumnIR col 0)])[f := Some (FuncIR fname [length g])]) k"
    by (rule referenced_erase)
  from referenced_update [OF this] have "referenced (g @ [Some (ColumnIR col 0)]) k \<or> k = length g"
    by (simp add: refs_of_def)
  with k have "referenced (g @ [Some (ColumnIR col 0)]) k" by simp
  then have "referenced g k" by (simp add: referenced_snoc refs_of_def)
  with nr show False by simp
qed

lemma AggHandler_kwargs_ok:
  assumes "list_all2 (\<lambda>kw f. agg_pair g (snd kw) f) kws funcs"
    and "distinct (map snd kws)" and "distinct funcs"
    and "\<forall>kw\<in>set kws. \<not> referenced g (snd kw)"
  shows "\<exists>g'. AggHandler_kwargs g kws acc = (Inr (acc @ zip (map fst kws) funcs), g')"
  using assms
proof (induction kws arbitrary: g funcs acc)
  case Nil
  then show ?case by simp
next
  case (Cons kw kws)
  obtain name t where kw: "kw = (name, t)" by (cases kw)
  from Cons.prems(1) obtain f fs where funcs: "funcs = f # fs"
    and p: "agg_pair g t f" and rest: "list_all2 (\<lambda>kw f. agg_pair g (snd kw) f) kws fs"
    by (cases funcs) (auto simp: kw)
  from agg_pair_D [OF p] obtain s col fname where
    t: "Get g t = Some (TupleIR [s, f])" and s: "Get g s = Some (StringIR col)"
    and f: "Get g f = Some (FuncIR fname [])" by blast
  have nr: "\<not> referenced g t" using Cons.prems(4) kw by simp
  let ?g1 = "(g @ [Some (ColumnIR col 0)])[f := Some (FuncIR fname [length g]), t := None]"
  have parse: "ParseNameTuple g t = (Inr f, ?g1)" using t s f nr by (rule ParseNameTuple_ok)
  have dt: "\<forall>kw'\<in>set kws. snd kw' \<noteq> t" using Cons.prems(2) kw by auto
  have df: "\<forall>f'\<in>set fs. f' \<noteq> f" using Cons.prems(3) funcs by auto
  have rest1: "list_all2 (\<lambda>kw f. agg_pair ?g1 (snd kw) f) kws fs"
  proof (rule list.rel_mono_strong [OF rest])
    fix kw' f' assume "kw' \<in> set kws" and "f' \<in> set fs" and "agg_pair g (snd kw') f'"
    with dt df show "agg_pair ?g1 (snd kw') f'"
      using agg_pair_step [OF t f] by blast
  qed
  have nr1: "\<forall>kw'\<in>set kws. \<not> referenced ?g1 (snd kw')"
  proof
    fix kw' assume m: "kw' \<in> set kws"
    then obtain f' where "agg_pair g (snd kw') f'"
      using rest by (metis in_set_conv_nth list_all2_conv_all_nth)
    from agg_pair_D [OF this] have klt: "snd kw' < length g" using Get_Some_less by blast
    have nrk: "\<not> referenced g (snd kw')" using Cons.prems(4) m by simp
    show "\<not> referenced ?g1 (snd kw')" using nrk klt by (rule agg_step_unreferenced)
  qed
  from Cons.prems(2) have d2: "distinct (map snd kws)" by simp
  from Cons.prems(3) funcs have d3: "distinct fs" by simp
  from Cons.IH [OF rest1 d2 d3 nr1, of "acc @ [(name, f)]"] obtain g' where
    "AggHandler_kwargs ?g1 kws (acc @ [(name, f)]) = (Inr ((acc @ [(name, f)]) @ zip (map fst kws) fs), g')"
    by blast
  with t parse show ?case by (simp add: kw funcs IsTuple_def)
qed

text \<open>
  C2. Every successful call of the Aggregate handler returns a dataframe over a new
  BlockingAgg node over the dataframe's operator, with an empty list of group columns
  and exactly one aggregate expression per keyword argument, under the keyword's name
  and in the keywords' order. For every keyword, its value was (before the call) a
  tuple of a string and a function without arguments; the aggregate expression is
  that function; after the call the function's argument list is exactly one Column
  node, created by the call, named by the tuple's string at parent index 0; and the
  tuple node is no longer in the graph. And the call does succeed, with the functions
  \<open>funcs\<close> of the tuples as the aggregate expressions, whenever every keyword value is
  a tuple of a string and a function without arguments, the keywords share no tuple
  and no function, and nothing in the graph refers to a keyword's tuple.
\<close>

theorem AggHandler_desugars:
  "(\<forall>df' g'. AggHandler_Eval g df args = (Inr df', g') \<longrightarrow>
      (\<exists>exprs. Get g' (op df') = Some (BlockingAggIR (op df) [] exprs)
        \<and> map fst exprs = map fst (kwargs args)
        \<and> (\<forall>i<length (kwargs args). \<exists>s col fname c.
              Get g (snd (kwargs args ! i)) = Some (TupleIR [s, snd (exprs ! i)])
            \<and> Get g s = Some (StringIR col)
            \<and> Get g (snd (exprs ! i)) = Some (FuncIR fname [])
            \<and> Get g' (snd (exprs ! i)) = Some (FuncIR fname [c])
            \<and> length g \<le> c \<and> Get g' c = Some (ColumnIR col 0)
            \<and> Get g' (snd (kwargs args ! i)) = None)))
   \<and> (list_all2 (\<lambda>kw f. agg_pair g (snd kw) f) (kwargs args) funcs \<longrightarrow>
      distinct (map snd (kwargs args)) \<longrightarrow> distinct funcs \<longrightarrow>
      (\<forall>kw\<in>set (kwargs args). \<not> referenced g (snd kw)) \<longrightarrow>
      (\<exists>df' g'. AggHandler_Eval g df args = (Inr df', g')
         \<and> Get g' (op df') =
             Some (BlockingAggIR (op df) [] (zip (map fst (kwargs args)) funcs))))"
proof (rule conjI)
  show "\<forall>df' g'. AggHandler_Eval g df args = (Inr df', g') \<longrightarrow>
      (\<exists>exprs. Get g' (op df') = Some (BlockingAggIR (op df) [] exprs)
        \<and> map fst exprs = map fst (kwargs args)
        \<and> (\<forall>i<length (kwargs args). \<exists>s col fname c.
              Get g (snd (kwargs args ! i)) = Some (TupleIR [s, snd (exprs ! i)])
            \<and> Get g s = Some (StringIR col)
            \<and> Get g (snd (exprs ! i)) = Some (FuncIR fname [])
            \<and> Get g' (snd (exprs ! i)) = Some (FuncIR fname [c])
            \<and> length g \<le> c \<and> Get g' c = Some (ColumnIR col 0)
            \<and> Get g' (snd (kwargs args ! i)) = None))"
    using AggHandler_Eval_Inr [of g df args] by blast
next
  show "list_all2 (\<lambda>kw f. agg_pair g (snd kw) f) (kwargs args) funcs \<longrightarrow>
      distinct (map snd (kwargs args)) \<longrightarrow> distinct funcs \<longrightarrow>
      (\<forall>kw\<in>set (kwargs args). \<not> referenced g (snd kw)) \<longrightarrow>
      (\<exists>df' g'. AggHandler_Eval g df args = (Inr df', g')
         \<and> Get g' (op df') =
             Some (BlockingAggIR (op df) [] (zip (map fst (kwargs args)) funcs)))"
  proof (intro impI)
    assume a: "list_all2 (\<lambda>kw f. agg_pair g (snd kw) f) (kwargs args) funcs"
      and b: "distinct (map snd (kwargs args))" and c: "distinct funcs"
      and d: "\<forall>kw\<in>set (kwargs args). \<not> referenced g (snd kw)"
    from AggHandler_kwargs_ok [OF a b c d, of "[]"] obtain g1 where
      loop: "AggHandler_kwargs g (kwargs args) [] = (Inr (zip (map fst (kwargs args)) funcs), g1)"
      by auto
    let ?node = "BlockingAggIR (op df) [] (zip (map fst (kwargs args)) funcs)"
    have run: "AggHandler_Eval g df args = (Inr (Dataframe (length g1)), g1 @ [Some ?node])"
      by (simp add: AggHandler_Eval_def loop CreateNode_def)
    have "Get (g1 @ [Some ?node]) (op (Dataframe (length g1))) = Some ?node"
      by (simp add: Get_snoc_new)
    with run show "\<exists>df' g'. AggHandler_Eval g df args = (Inr df', g')
         \<and> Get g' (op df') = Some ?node"
      by blast
  qed
qed

theorem AggHandler_desugars_witness:
  "AggHandler_Eval
     [Some (MemorySourceIR ''t''), Some (StringIR ''x''), Some (FuncIR ''mean'' []),
      Some (TupleIR [1, 2]), Some (StringIR ''y''), Some (FuncIR ''sum'' []),
      Some (TupleIR [4, 5])]
     (Dataframe 0) \<lparr>GetArg = (\<lambda>_. 0), kwargs = [(''a'', 3), (''b'', 6)]\<rparr> =
   (Inr (Dataframe 9),
     [Some (MemorySourceIR ''t''), Some (StringIR ''x''), Some (FuncIR ''mean'' [7]),
      None, Some (StringIR ''y''), Some (FuncIR ''sum'' [8]), None,
      Some (ColumnIR ''x'' 0), Some (ColumnIR ''y'' 0),
      Some (BlockingAggIR 0 [] [(''a'', 2), (''b'', 5)])])
   \<and> (\<exists>df' g'. AggHandler_Eval
     [Some (MemorySourceIR ''t''), Some (StringIR ''x''), Some (FuncIR ''mean'' []),
      Some (TupleIR [1, 2]), Some (StringIR ''y''), Some (FuncIR ''sum'' []),
      Some (TupleIR [4, 5])]
     (Dataframe 0) \<lparr>GetArg = (\<lambda>_. 0), kwargs = [(''a'', 3), (''b'', 6)]\<rparr> = (Inr df', g')
       \<and> Get g' (op df') = Some (BlockingAggIR 0 [] [(''a'', 2), (''b'', 5)]))"
proof -
  let ?g = "[Some (MemorySourceIR ''t''), Some (StringIR ''x''), Some (FuncIR ''mean'' []),
      Some (TupleIR [1, 2]), Some (StringIR ''y''), Some (FuncIR ''sum'' []),
      Some (TupleIR [4, 5])]"
  let ?g' = "[Some (MemorySourceIR ''t''), Some (StringIR ''x''), Some (FuncIR ''mean'' [7]),
      None, Some (StringIR ''y''), Some (FuncIR ''sum'' [8]), None,
      Some (ColumnIR ''x'' 0), Some (ColumnIR ''y'' 0),
      Some (BlockingAggIR 0 [] [(''a'', 2), (''b'', 5)])]"
  let ?args = "\<lparr>GetArg = (\<lambda>_. 0), kwargs = [(''a'', 3), (''b'', 6)]\<rparr>"
  have h1: "list_all2 (\<lambda>kw f. agg_pair ?g (snd kw) f) (kwargs ?args) [2, 5]"
    by (simp add: agg_pair_def Get_def IsString_def)
  have h2: "distinct (map snd (kwargs ?args))" by simp
  have h3: "distinct [2, 5::nat]" by simp
  have h4: "\<forall>kw\<in>set (kwargs ?args). \<not> referenced ?g (snd kw)"
    by (simp add: referenced_def refs_of_def)
  note T = AggHandler_desugars [where g = ?g and args = ?args and df = "Dataframe 0"
      and funcs = "[2, 5]"]
  have ok: "\<exists>df' g'. AggHandler_Eval ?g (Dataframe 0) ?args = (Inr df', g')
       \<and> Get g' (op df') = Some (BlockingAggIR 0 [] [(''a'', 2), (''b'', 5)])"
    using T [THEN conjunct2, THEN mp, THEN mp, THEN mp, THEN mp, OF h1 h2 h3 h4] by simp
  have run: "AggHandler_Eval ?g (Dataframe 0) ?args = (Inr (Dataframe 9), ?g')"
    by (simp add: AggHandler_Eval_def ParseNameTuple_def Get_def IsTuple_def IsString_def
        IsFunc_def CreateNode_def AddArg_def DeleteNode_def referenced_def refs_of_def)
  from run ok show ?thesis by (rule conjI)
qed

section \<open>Drop\<close>

lemma DeleteNodes_strings:
  assumes "distinct w" and "\<forall>i\<in>set w. \<exists>s. Get g i = Some (StringIR s)"
    and "DeleteNodesAndChildren g w = (Inr (), g')"
  shows "length g' = length g \<and> (\<forall>j. Get g' j = (if j \<in> set w then None else Get g j))"
  using assms
proof (induction w arbitrary: g)
  case Nil
  then show ?case by simp
next
  case (Cons i w)
  from Cons.prems(2) obtain s where s: "Get g i = Some (StringIR s)" by auto
  from Cons.prems(3) s have rest: "DeleteNodesAndChildren (g[i := None]) w = (Inr (), g')"
    by (simp split: if_splits)
  have "\<forall>j\<in>set w. \<exists>s. Get (g[i := None]) j = Some (StringIR s)"
    using Cons.prems(1,2) by (auto simp: Get_erase)
  with Cons.IH [OF _ _ rest] Cons.prems(1)
  have "length g' = length (g[i := None])"
    and "\<forall>j. Get g' j = (if j \<in> set w then None else Get (g[i := None]) j)"
    by auto
  then show ?case by (auto simp: Get_erase)
qed

lemma DeleteNodes_strings_ok:
  assumes "distinct w" and "\<forall>i\<in>set w. \<exists>s. Get g i = Some (StringIR s)"
    and "\<forall>i\<in>set w. \<not> referenced g i"
  shows "\<exists>g'. DeleteNodesAndChildren g w = (Inr (), g')"
  using assms
proof (induction w arbitrary: g)
  case Nil
  then show ?case by simp
next
  case (Cons i w)
  from Cons.prems(2) obtain s where s: "Get g i = Some (StringIR s)" by auto
  have a: "\<forall>j\<in>set w. \<exists>s. Get (g[i := None]) j = Some (StringIR s)"
    using Cons.prems(1,2) by (auto simp: Get_erase)
  have b: "\<forall>j\<in>set w. \<not> referenced (g[i := None]) j"
    using Cons.prems(3) referenced_erase by auto
  from Cons.IH [OF _ a b] Cons.prems(1) obtain g' where
    "DeleteNodesAndChildren (g[i := None]) w = (Inr (), g')" by auto
  with s Cons.prems(3) show ?case by simp
qed


lemma strings_not_list:
  assumes "Get g l = Some (ListIR cs)" and "map (Get g) cs = map (\<lambda>s. Some (StringIR s)) names"
  shows "\<forall>c\<in>set cs. c \<noteq> l \<and> (\<exists>s. Get g c = Some (StringIR s))"
proof
  fix c assume "c \<in> set cs"
  then have "Get g c \<in> set (map (Get g) cs)" by simp
  then have "\<exists>s. Get g c = Some (StringIR s)" unfolding assms(2) by auto
  with assms(1) show "c \<noteq> l \<and> (\<exists>s. Get g c = Some (StringIR s))" by auto
qed

lemma Drop_delete_Inr:
  assumes l: "Get g l = Some (ListIR cs)"
    and strs: "map (Get g) cs = map (\<lambda>s. Some (StringIR s)) names"
    and del: "DeleteNodeAndChildren (g @ [d]) l = (Inr (), g')"
  shows "\<forall>j. Get g' j = (if j = l \<or> j \<in> set cs then None else Get (g @ [d]) j)"
proof -
  let ?g1 = "g @ [d]"
  have l1: "Get ?g1 l = Some (ListIR cs)" using l by (rule Get_append_Some)
  from del l1 have rest: "DeleteNodesAndChildren (?g1[l := None]) (remdups cs) = (Inr (), g')"
    by (simp add: DeleteNodeAndChildren_def split: if_splits)
  have str: "\<forall>i\<in>set (remdups cs). \<exists>s. Get (?g1[l := None]) i = Some (StringIR s)"
    using strings_not_list [OF l strs] by (auto simp: Get_erase Get_append_Some)
  from DeleteNodes_strings [OF _ str rest]
  have "\<forall>j. Get g' j = (if j \<in> set (remdups cs) then None else Get (?g1[l := None]) j)"
    by simp
  then show ?thesis by (auto simp: Get_erase)
qed

lemma referenced_split:
  assumes "Get g l = Some m"
  shows "referenced g i \<longleftrightarrow> referenced (g[l := None]) i \<or> i \<in> set (refs_of m)"
proof
  assume "referenced g i"
  then obtain j k where j: "Get g j = Some k" and r: "i \<in> set (refs_of k)"
    unfolding referenced_iff by blast
  show "referenced (g[l := None]) i \<or> i \<in> set (refs_of m)"
  proof (cases "j = l")
    case True
    with j assms r show ?thesis by simp
  next
    case False
    with j have "Get (g[l := None]) j = Some k" by (simp add: Get_erase)
    with r show ?thesis unfolding referenced_iff by blast
  qed
next
  assume "referenced (g[l := None]) i \<or> i \<in> set (refs_of m)"
  then show "referenced g i"
  proof
    assume "referenced (g[l := None]) i"
    then show ?thesis by (rule referenced_erase)
  next
    assume "i \<in> set (refs_of m)"
    with assms show ?thesis unfolding referenced_iff by blast
  qed
qed

lemma Drop_delete_ok:
  assumes l: "Get g l = Some (ListIR cs)"
    and strs: "map (Get g) cs = map (\<lambda>s. Some (StringIR s)) names"
    and p: "p \<notin> insert l (set cs)"
    and own: "\<forall>i\<in>insert l (set cs). \<not> referenced (g[l := None]) i"
  shows "\<exists>g'. DeleteNodeAndChildren (g @ [Some (DropIR p names)]) l = (Inr (), g')"
proof -
  let ?d = "Some (DropIR p names)"
  let ?g1 = "g @ [?d]"
  have ll: "l < length g" using l by (rule Get_Some_less)
  have l1: "Get ?g1 l = Some (ListIR cs)" using l by (rule Get_append_Some)
  have sn: "\<forall>c\<in>set cs. c \<noteq> l \<and> (\<exists>s. Get g c = Some (StringIR s))"
    using l strs by (rule strings_not_list)
  have upd: "?g1[l := None] = g[l := None] @ [?d]" using ll by (simp add: list_update_append)
  have "\<not> referenced g l"
    using own sn by (auto simp: referenced_split [OF l] refs_of_def)
  then have nr: "\<not> referenced ?g1 l"
    using p by (simp add: referenced_snoc refs_of_def)
  have str: "\<forall>i\<in>set (remdups cs). \<exists>s. Get (?g1[l := None]) i = Some (StringIR s)"
    using sn by (auto simp: Get_erase Get_append_Some)
  have unref: "\<forall>i\<in>set (remdups cs). \<not> referenced (?g1[l := None]) i"
    using own p by (auto simp: upd referenced_snoc refs_of_def)
  from DeleteNodes_strings_ok [OF _ str unref] obtain g' where
    "DeleteNodesAndChildren (?g1[l := None]) (remdups cs) = (Inr (), g')" by auto
  with l1 nr show ?thesis by (simp add: DeleteNodeAndChildren_def)
qed

lemma Drop_not_list:
  assumes "Get g (GetArg args ''columns'') = Some n" and "\<not> IsList n"
  shows "DropHandler_Eval g df args =
             (Inl (IRNodeError (GetArg args ''columns'')
                     ''Expected '$0' kwarg argument 'columns' to be a list, not $1''
                     [SStr kDropOpId, SNode (type_of n)]), g)"
  using assms by (simp add: DropHandler_Eval_def)

lemma Drop_Inr:
  assumes l: "Get g (GetArg args ''columns'') = Some (ListIR cs)"
    and strs: "map (Get g) cs = map (\<lambda>s. Some (StringIR s)) names"
    and run: "DropHandler_Eval g df args = (Inr df', g')"
  shows "Get g' (op df') = Some (DropIR (op df) names)
       \<and> Get g' (GetArg args ''columns'') = None
       \<and> (\<forall>c\<in>set cs. Get g' c = None)
       \<and> (\<forall>j<length g. j \<noteq> GetArg args ''columns'' \<longrightarrow> j \<notin> set cs \<longrightarrow> Get g' j = Get g j)"
proof -
  let ?l = "GetArg args ''columns''"
  let ?d = "Some (DropIR (op df) names)"
  from run l have del: "DeleteNodeAndChildren (g @ [?d]) ?l = (Inr (), g')"
    and df': "df' = Dataframe (length g)"
    by (auto simp: DropHandler_Eval_def IsList_def ParseStrings_ok [OF strs] CreateNode_def
        split: prod.splits sum.splits)
  note all = Drop_delete_Inr [OF l strs del]
  have sn: "\<forall>c\<in>set cs. c \<noteq> ?l \<and> (\<exists>s. Get g c = Some (StringIR s))"
    using l strs by (rule strings_not_list)
  have ng: "length g \<noteq> ?l" using Get_Some_less [OF l] by simp
  have nc: "length g \<notin> set cs"
  proof
    assume "length g \<in> set cs"
    with sn obtain s where "Get g (length g) = Some (StringIR s)" by blast
    from Get_Some_less [OF this] show False by simp
  qed
  have 1: "Get g' (op df') = Some (DropIR (op df) names)"
    using all ng nc by (simp add: df' Get_snoc_new)
  have 2: "Get g' ?l = None" using all by simp
  have 3: "\<forall>c\<in>set cs. Get g' c = None" using all by simp
  have 4: "\<forall>j<length g. j \<noteq> ?l \<longrightarrow> j \<notin> set cs \<longrightarrow> Get g' j = Get g j"
    using all by (simp add: Get_append_old)
  from 1 2 3 4 show ?thesis by simp
qed

lemma Drop_ok:
  assumes l: "Get g (GetArg args ''columns'') = Some (ListIR cs)"
    and strs: "map (Get g) cs = map (\<lambda>s. Some (StringIR s)) names"
    and p: "op df \<notin> insert (GetArg args ''columns'') (set cs)"
    and own: "\<forall>i\<in>insert (GetArg args ''columns'') (set cs).
                   \<not> referenced (g[GetArg args ''columns'' := None]) i"
  shows "\<exists>df' g'. DropHandler_Eval g df args = (Inr df', g')"
proof -
  from Drop_delete_ok [OF l strs p own] obtain g' where
    "DeleteNodeAndChildren (g @ [Some (DropIR (op df) names)]) (GetArg args ''columns'') = (Inr (), g')"
    by blast
  with l show ?thesis
    by (simp add: DropHandler_Eval_def IsList_def ParseStrings_ok [OF strs] CreateNode_def)
qed

text \<open>
  C6. The \<open>columns\<close> argument of the Drop handler names a node. If the node is not a
  list, the handler returns the error that \<open>columns\<close> must be a list and leaves the
  graph as it was. If it is a list of strings, every successful call returns a
  dataframe over a new Drop node (over the dataframe's operator) that holds exactly
  these strings, in order, and afterwards the list node and all of its children are
  gone from the graph, while every other node that was there is unchanged. The call
  does succeed whenever the dataframe's operator is none of these nodes and, the
  list itself aside, no node refers to the list or to one of its children.
\<close>

theorem DropHandler_consumes_list:
  assumes "Get g (GetArg args ''columns'') = Some n"
  shows "(\<not> IsList n \<longrightarrow>
           DropHandler_Eval g df args =
             (Inl (IRNodeError (GetArg args ''columns'')
                     ''Expected '$0' kwarg argument 'columns' to be a list, not $1''
                     [SStr kDropOpId, SNode (type_of n)]), g))
       \<and> (\<forall>cs names. n = ListIR cs \<longrightarrow> map (Get g) cs = map (\<lambda>s. Some (StringIR s)) names \<longrightarrow>
            (\<forall>df' g'. DropHandler_Eval g df args = (Inr df', g') \<longrightarrow>
                 Get g' (op df') = Some (DropIR (op df) names)
               \<and> Get g' (GetArg args ''columns'') = None
               \<and> (\<forall>c\<in>set cs. Get g' c = None)
               \<and> (\<forall>j<length g. j \<noteq> GetArg args ''columns'' \<longrightarrow> j \<notin> set cs \<longrightarrow> Get g' j = Get g j))
          \<and> (op df \<notin> insert (GetArg args ''columns'') (set cs) \<longrightarrow>
               (\<forall>i\<in>insert (GetArg args ''columns'') (set cs).
                   \<not> referenced (g[GetArg args ''columns'' := None]) i) \<longrightarrow>
               (\<exists>df' g'. DropHandler_Eval g df args = (Inr df', g'))))"
proof (rule conjI)
  show "\<not> IsList n \<longrightarrow>
           DropHandler_Eval g df args =
             (Inl (IRNodeError (GetArg args ''columns'')
                     ''Expected '$0' kwarg argument 'columns' to be a list, not $1''
                     [SStr kDropOpId, SNode (type_of n)]), g)"
    using Drop_not_list [OF assms] by (rule impI)
next
  show "\<forall>cs names. n = ListIR cs \<longrightarrow> map (Get g) cs = map (\<lambda>s. Some (StringIR s)) names \<longrightarrow>
            (\<forall>df' g'. DropHandler_Eval g df args = (Inr df', g') \<longrightarrow>
                 Get g' (op df') = Some (DropIR (op df) names)
               \<and> Get g' (GetArg args ''columns'') = None
               \<and> (\<forall>c\<in>set cs. Get g' c = None)
               \<and> (\<forall>j<length g. j \<noteq> GetArg args ''columns'' \<longrightarrow> j \<notin> set cs \<longrightarrow> Get g' j = Get g j))
          \<and> (op df \<notin> insert (GetArg args ''columns'') (set cs) \<longrightarrow>
               (\<forall>i\<in>insert (GetArg args ''columns'') (set cs).
                   \<not> referenced (g[GetArg args ''columns'' := None]) i) \<longrightarrow>
               (\<exists>df' g'. DropHandler_Eval g df args = (Inr df', g')))"
  proof (intro allI impI)
    fix cs names
    assume n: "n = ListIR cs" and strs: "map (Get g) cs = map (\<lambda>s. Some (StringIR s)) names"
    have l: "Get g (GetArg args ''columns'') = Some (ListIR cs)" using assms n by simp
    show "(\<forall>df' g'. DropHandler_Eval g df args = (Inr df', g') \<longrightarrow>
                 Get g' (op df') = Some (DropIR (op df) names)
               \<and> Get g' (GetArg args ''columns'') = None
               \<and> (\<forall>c\<in>set cs. Get g' c = None)
               \<and> (\<forall>j<length g. j \<noteq> GetArg args ''columns'' \<longrightarrow> j \<notin> set cs \<longrightarrow> Get g' j = Get g j))
          \<and> (op df \<notin> insert (GetArg args ''columns'') (set cs) \<longrightarrow>
               (\<forall>i\<in>insert (GetArg args ''columns'') (set cs).
                   \<not> referenced (g[GetArg args ''columns'' := None]) i) \<longrightarrow>
               (\<exists>df' g'. DropHandler_Eval g df args = (Inr df', g')))"
      using Drop_Inr [OF l strs] Drop_ok [OF l strs] by blast
  qed
qed


theorem DropHandler_consumes_list_witness:
  "(\<exists>df' g'. DropHandler_Eval
        [Some (MemorySourceIR ''t''), Some (StringIR ''a''), Some (StringIR ''b''),
         Some (ListIR [1, 2])]
        (Dataframe 0) \<lparr>GetArg = (\<lambda>_. 3), kwargs = []\<rparr> = (Inr df', g'))
   \<and> DropHandler_Eval
        [Some (MemorySourceIR ''t''), Some (StringIR ''a''), Some (StringIR ''b''),
         Some (ListIR [1, 2])]
        (Dataframe 0) \<lparr>GetArg = (\<lambda>_. 3), kwargs = []\<rparr> =
      (Inr (Dataframe 4),
        [Some (MemorySourceIR ''t''), None, None, None, Some (DropIR 0 [''a'', ''b''])])
   \<and> DropHandler_Eval
        [Some (MemorySourceIR ''t''), Some (StringIR ''a''), Some (StringIR ''b''),
         Some (ListIR [1, 2])]
        (Dataframe 0) \<lparr>GetArg = (\<lambda>_. 1), kwargs = []\<rparr> =
      (Inl (IRNodeError 1 ''Expected '$0' kwarg argument 'columns' to be a list, not $1''
              [SStr ''drop'', SNode kString]),
        [Some (MemorySourceIR ''t''), Some (StringIR ''a''), Some (StringIR ''b''),
         Some (ListIR [1, 2])])"
proof -
  let ?g = "[Some (MemorySourceIR ''t''), Some (StringIR ''a''), Some (StringIR ''b''),
         Some (ListIR [1, 2])]"
  let ?a3 = "\<lparr>GetArg = (\<lambda>_. 3), kwargs = []\<rparr>"
  let ?a1 = "\<lparr>GetArg = (\<lambda>_. 1), kwargs = []\<rparr>"
  have k3: "Get ?g (GetArg ?a3 ''columns'') = Some (ListIR [1, 2])" by (simp add: Get_def)
  have k1: "Get ?g (GetArg ?a1 ''columns'') = Some (StringIR ''a'')" by (simp add: Get_def)
  have strs: "map (Get ?g) [1, 2] = map (\<lambda>s. Some (StringIR s)) [''a'', ''b'']"
    by (simp add: Get_def)
  have p: "op (Dataframe 0) \<notin> insert (GetArg ?a3 ''columns'') (set [1, 2])" by simp
  have own: "\<And>i. i \<in> insert (GetArg ?a3 ''columns'') (set [1, 2]) \<Longrightarrow>
      \<not> referenced (?g[GetArg ?a3 ''columns'' := None]) i"
    by (auto simp: referenced_def refs_of_def)
  note T3 = DropHandler_consumes_list [OF k3, of "Dataframe 0"]
  note T1 = DropHandler_consumes_list [OF k1, of "Dataframe 0"]
  have ok: "\<exists>df' g'. DropHandler_Eval ?g (Dataframe 0) ?a3 = (Inr df', g')"
    using T3 [THEN conjunct2, rule_format, OF refl strs, THEN conjunct2, rule_format, OF p own]
    by simp
  have run: "DropHandler_Eval ?g (Dataframe 0) ?a3 =
      (Inr (Dataframe 4),
        [Some (MemorySourceIR ''t''), None, None, None, Some (DropIR 0 [''a'', ''b''])])"
    by (simp add: DropHandler_Eval_def Get_def IsList_def CreateNode_def
        DeleteNodeAndChildren_def referenced_def refs_of_def)
  have nl: "\<not> IsList (StringIR ''a'')" by (simp add: IsList_def)
  have bad: "DropHandler_Eval ?g (Dataframe 0) ?a1 =
      (Inl (IRNodeError 1 ''Expected '$0' kwarg argument 'columns' to be a list, not $1''
              [SStr ''drop'', SNode kString]), ?g)"
    using T1 [THEN conjunct1, rule_format, OF nl] by (simp add: kDropOpId_def)
  from ok run bad show ?thesis by (intro conjI)
qed

section \<open>OTel span kind\<close>

lemma GetArgAs_StringIR_error: "GetArgAs_StringIR g obj a = Inl e \<Longrightarrow> e \<noteq> CheckFailure"
  by (auto simp: GetArgAs_StringIR_def split: QLObject.splits option.splits IRNode.splits)

lemma GetArgAs_StringIR_ok:
  "is_string_arg g obj \<Longrightarrow> \<exists>i s. GetArgAs_StringIR g obj a = Inr (i, s)"
  by (auto simp: is_string_arg_def GetArgAs_StringIR_def IsString_def
      split: QLObject.splits option.splits IRNode.splits)

lemma GetArgAsString_error: "GetArgAsString g args a = Inl e \<Longrightarrow> e \<noteq> CheckFailure"
  by (auto simp: GetArgAsString_def dest: GetArgAs_StringIR_error split: sum.splits)

lemma GetArgAsString_ok: "is_string_arg g (args a) \<Longrightarrow> \<exists>s. GetArgAsString g args a = Inr s"
  using GetArgAs_StringIR_ok [of g "args a" a] by (auto simp: GetArgAsString_def)

lemma ParseEndpointConfig_error: "ParseEndpointConfig obj pb = Inl e \<Longrightarrow> e \<noteq> CheckFailure"
  by (auto simp: ParseEndpointConfig_def split: QLObject.splits)

lemma GetArgAs_IntIR_ok:
  "obj = ExprObject k \<Longrightarrow> Get g k = Some (IntIR v) \<Longrightarrow> GetArgAs_IntIR g obj a = Inr (k, v)"
  by (simp add: GetArgAs_IntIR_def)

lemma int64_to_int_in_range:
  "- (2 ^ 31) \<le> v \<Longrightarrow> v < 2 ^ 31 \<Longrightarrow> int64_to_int v = v"
  by (simp add: int64_to_int_def)

lemma Span_invalid_kind_error:
  assumes "args ''kind'' = ExprObject k" and "Get g k = Some (IntIR v)"
    and "\<not> OTelSpanKind_IsValid (int64_to_int v)"
  shows "\<exists>e. OTelSpanDefinition g args = Inl e \<and> e \<noteq> CheckFailure"
  using assms
  by (auto simp: OTelSpanDefinition_def GetArgAs_IntIR_ok
      dest: GetArgAs_StringIR_error GetArgAsString_error ParseEndpointConfig_error
      split: sum.splits prod.splits)

lemma Span_invalid_kind_named:
  assumes kind: "args ''kind'' = ExprObject k" "Get g k = Some (IntIR v)"
    and bad: "\<not> OTelSpanKind_IsValid (int64_to_int v)"
    and ep: "args ''endpoint'' = EndpointConfigObject u a"
    and strs: "is_string_arg g (args ''name'')" "is_string_arg g (args ''span_id'')"
      "is_string_arg g (args ''parent_span_id'')" "is_string_arg g (args ''trace_id'')"
      "is_string_arg g (args ''status'')" "is_string_arg g (args ''start_time_unix_nano'')"
      "is_string_arg g (args ''end_time_unix_nano'')"
  shows "OTelSpanDefinition g args =
      Inl (IRNodeError k ''Kind value '$0' is not a valid option'' [SInt v])"
proof -
  from GetArgAsString_ok [of g args "''name''", OF strs(1)] obtain s0 where
    0: "GetArgAsString g args ''name'' = Inr s0" by blast
  from GetArgAs_StringIR_ok [OF strs(2)] obtain i1 s1 where
    1: "GetArgAs_StringIR g (args ''span_id'') ''span_id'' = Inr (i1, s1)" by blast
  from GetArgAs_StringIR_ok [OF strs(3)] obtain i2 s2 where
    2: "GetArgAs_StringIR g (args ''parent_span_id'') ''parent_span_id'' = Inr (i2, s2)" by blast
  from GetArgAs_StringIR_ok [OF strs(4)] obtain i3 s3 where
    3: "GetArgAs_StringIR g (args ''trace_id'') ''trace_id'' = Inr (i3, s3)" by blast
  from GetArgAs_StringIR_ok [OF strs(5)] obtain i4 s4 where
    4: "GetArgAs_StringIR g (args ''status'') ''status'' = Inr (i4, s4)" by blast
  from GetArgAs_StringIR_ok [OF strs(6)] obtain i5 s5 where
    5: "GetArgAs_StringIR g (args ''start_time_unix_nano'') ''start_time_unix_nano'' = Inr (i5, s5)"
    by blast
  from GetArgAs_StringIR_ok [OF strs(7)] obtain i6 s6 where
    6: "GetArgAs_StringIR g (args ''end_time_unix_nano'') ''end_time_unix_nano'' = Inr (i6, s6)"
    by blast
  have 7: "GetArgAs_IntIR g (args ''kind'') ''kind'' = Inr (k, v)"
    using kind by (rule GetArgAs_IntIR_ok)
  show ?thesis
    by (simp add: OTelSpanDefinition_def ParseEndpointConfig_def ep 0 1 2 3 4 5 6 7 bad)
qed

lemma Span_valid_kind_set:
  assumes "args ''kind'' = ExprObject k" and "Get g k = Some (IntIR v)"
    and "OTelSpanDefinition g args = Inr (ExporterObject pb columns)"
  shows "OTelSpanKind_IsValid (int64_to_int v)
       \<and> (\<exists>span. data_config pb = Span span \<and> span_kind span = int64_to_int v)"
  using assms
  by (auto simp: OTelSpanDefinition_def GetArgAs_IntIR_ok
      split: sum.splits prod.splits if_splits QLObject.splits)

lemma attributes_loop_ok:
  "length vals = length keys \<Longrightarrow> list_all (is_string_arg g) keys \<Longrightarrow>
   list_all (is_string_arg g) vals \<Longrightarrow> \<exists>attrs columns. attributes_loop g keys vals = Inr (attrs, columns)"
proof (induction keys arbitrary: vals)
  case Nil
  then show ?case by simp
next
  case (Cons key keys)
  then obtain val vals' where vals: "vals = val # vals'" by (cases vals) auto
  from Cons.prems(2) GetArgAs_StringIR_ok [of g key "''attribute''"] obtain i s where
    k: "GetArgAs_StringIR g key ''attribute'' = Inr (i, s)" by auto
  from Cons.prems(3) vals GetArgAs_StringIR_ok [of g val "''attribute value column''"]
  obtain j t where
    v: "GetArgAs_StringIR g val ''attribute value column'' = Inr (j, t)" by auto
  from Cons.IH [of vals'] Cons.prems vals obtain attrs columns where
    "attributes_loop g keys vals' = Inr (attrs, columns)" by auto
  with k v vals show ?case by simp
qed

text \<open>
  With all arguments well-formed and a kind whose 32-bit value is in the enum, the
  span builder returns a span payload whose kind is that 32-bit value.
\<close>

lemma Span_valid_kind_builds:
  assumes kind: "args ''kind'' = ExprObject k" "Get g k = Some (IntIR v)"
    and good: "OTelSpanKind_IsValid (int64_to_int v)"
    and ep: "args ''endpoint'' = EndpointConfigObject u a"
    and strs: "is_string_arg g (args ''name'')" "is_string_arg g (args ''span_id'')"
      "is_string_arg g (args ''parent_span_id'')" "is_string_arg g (args ''trace_id'')"
      "is_string_arg g (args ''status'')" "is_string_arg g (args ''start_time_unix_nano'')"
      "is_string_arg g (args ''end_time_unix_nano'')"
    and dict: "args ''attributes'' = DictObject keys vals" "length vals = length keys"
      "list_all (is_string_arg g) keys" "list_all (is_string_arg g) vals"
  shows "\<exists>pb columns span. OTelSpanDefinition g args = Inr (ExporterObject pb columns)
       \<and> data_config pb = Span span \<and> span_kind span = int64_to_int v"
proof -
  from GetArgAsString_ok [of g args "''name''", OF strs(1)] obtain s0 where
    0: "GetArgAsString g args ''name'' = Inr s0" by blast
  from GetArgAs_StringIR_ok [OF strs(2)] obtain i1 s1 where
    1: "GetArgAs_StringIR g (args ''span_id'') ''span_id'' = Inr (i1, s1)" by blast
  from GetArgAs_StringIR_ok [OF strs(3)] obtain i2 s2 where
    2: "GetArgAs_StringIR g (args ''parent_span_id'') ''parent_span_id'' = Inr (i2, s2)" by blast
  from GetArgAs_StringIR_ok [OF strs(4)] obtain i3 s3 where
    3: "GetArgAs_StringIR g (args ''trace_id'') ''trace_id'' = Inr (i3, s3)" by blast
  from GetArgAs_StringIR_ok [OF strs(5)] obtain i4 s4 where
    4: "GetArgAs_StringIR g (args ''status'') ''status'' = Inr (i4, s4)" by blast
  from GetArgAs_StringIR_ok [OF strs(6)] obtain i5 s5 where
    5: "GetArgAs_StringIR g (args ''start_time_unix_nano'') ''start_time_unix_nano'' = Inr (i5, s5)"
    by blast
  from GetArgAs_StringIR_ok [OF strs(7)] obtain i6 s6 where
    6: "GetArgAs_StringIR g (args ''end_time_unix_nano'') ''end_time_unix_nano'' = Inr (i6, s6)"
    by blast
  have 7: "GetArgAs_IntIR g (args ''kind'') ''kind'' = Inr (k, v)"
    using kind by (rule GetArgAs_IntIR_ok)
  from attributes_loop_ok [OF dict(2,3,4)] obtain attrs acols where
    8: "attributes_loop g keys vals = Inr (attrs, acols)" by blast
  show ?thesis
    by (simp add: OTelSpanDefinition_def ParseEndpointConfig_def ep 0 1 2 3 4 5 6 7 8 good dict(1,2))
qed

text \<open>
  C8. The span builder is to return an error that names the value whenever the integer
  value of \<open>kind\<close> is not a value of the enum \<^verbatim>\<open>OTelSpanKind\<close>. It does so for every value
  whose 32-bit conversion is outside the enum (and so for every invalid value that
  fits 32 bits), but not for all 64-bit values: \<open>4294967298\<close>, which is \<open>2 ^ 32 + 2\<close>, is
  no value of the enum, yet the builder accepts it and returns a span payload of kind
  \<open>2\<close> (\<^verbatim>\<open>SPAN_KIND_SERVER\<close>).
\<close>

theorem OTelSpanDefinition_kind_narrowed:
  "\<not> OTelSpanKind_IsValid 4294967298
   \<and> OTelSpanDefinition
      [Some (StringIR ''span''), Some (StringIR ''col''), Some (IntIR 4294967298)]
      ((\<lambda>_. ExprObject 1)(''endpoint'' := EndpointConfigObject ''http://collector'' [],
         ''name'' := ExprObject 0, ''kind'' := ExprObject 2, ''attributes'' := DictObject [] []))
     = Inr (ExporterObject
        \<lparr>endpoint_config = \<lparr>url = ''http://collector'', endpoint_attributes = Map.empty\<rparr>,
         data_config = Span
           \<lparr>span_name = ''span'', span_attributes = [], trace_id_column = ''col'',
            span_id_column = ''col'', parent_span_id_column = ''col'',
            span_start_time_unix_nano_column = ''col'', end_time_unix_nano_column = ''col'',
            span_kind = 2, status_column = ''col''\<rparr>\<rparr>
        [ExpectedColumn 1 ''span_id'' ''col'' [STRING],
         ExpectedColumn 1 ''parent_span_id'' ''col'' [STRING],
         ExpectedColumn 1 ''trace_id'' ''col'' [STRING],
         ExpectedColumn 1 ''status'' ''col'' [INT64],
         ExpectedColumn 1 ''start_time_unix_nano'' ''col'' [TIME64NS],
         ExpectedColumn 1 ''end_time_unix_nano'' ''col'' [TIME64NS]])"
  by (simp add: OTelSpanDefinition_def ParseEndpointConfig_def EndpointConfig_ToProto_def
      default_endpoint_config_def GetArgAsString_def GetArgAs_StringIR_def
      GetArgAs_IntIR_def Get_def int64_to_int_def OTelSpanKind_IsValid_def
      SPAN_KIND_UNSPECIFIED_def SPAN_KIND_INTERNAL_def SPAN_KIND_SERVER_def)

section \<open>OTel dictionaries\<close>

text \<open>
  \<^verbatim>\<open>OTelSpanDefinition\<close>, \<^verbatim>\<open>OTelMetricDefinition\<close> and \<^verbatim>\<open>OTelSummaryDefinition\<close> compare
  the sizes of the keys and the values of their dictionary with \<^verbatim>\<open>CHECK_EQ\<close> before
  the loop: once the arguments read before the dictionary have passed, a mismatch
  aborts. \<^verbatim>\<open>EndpointConfigConstructor\<close> reads its attribute dictionary without that
  check and never aborts.
\<close>

lemma Span_length_mismatch_aborts:
  assumes "args ''endpoint'' = EndpointConfigObject u a"
    and "is_string_arg g (args ''name'')" "is_string_arg g (args ''span_id'')"
      "is_string_arg g (args ''parent_span_id'')" "is_string_arg g (args ''trace_id'')"
      "is_string_arg g (args ''status'')" "is_string_arg g (args ''start_time_unix_nano'')"
      "is_string_arg g (args ''end_time_unix_nano'')"
    and "args ''kind'' = ExprObject k" "Get g k = Some (IntIR v)"
      "OTelSpanKind_IsValid (int64_to_int v)"
    and "args ''attributes'' = DictObject keys vals" and "length vals \<noteq> length keys"
  shows "OTelSpanDefinition g args = Inl CheckFailure"
proof -
  from GetArgAsString_ok [of g args "''name''", OF assms(2)] obtain s0 where
    0: "GetArgAsString g args ''name'' = Inr s0" by blast
  from GetArgAs_StringIR_ok [OF assms(3)] obtain i1 s1 where
    1: "GetArgAs_StringIR g (args ''span_id'') ''span_id'' = Inr (i1, s1)" by blast
  from GetArgAs_StringIR_ok [OF assms(4)] obtain i2 s2 where
    2: "GetArgAs_StringIR g (args ''parent_span_id'') ''parent_span_id'' = Inr (i2, s2)" by blast
  from GetArgAs_StringIR_ok [OF assms(5)] obtain i3 s3 where
    3: "GetArgAs_StringIR g (args ''trace_id'') ''trace_id'' = Inr (i3, s3)" by blast
  from GetArgAs_StringIR_ok [OF assms(6)] obtain i4 s4 where
    4: "GetArgAs_StringIR g (args ''status'') ''status'' = Inr (i4, s4)" by blast
  from GetArgAs_StringIR_ok [OF assms(7)] obtain i5 s5 where
    5: "GetArgAs_StringIR g (args ''start_time_unix_nano'') ''start_time_unix_nano'' = Inr (i5, s5)"
    by blast
  from GetArgAs_StringIR_ok [OF assms(8)] obtain i6 s6 where
    6: "GetArgAs_StringIR g (args ''end_time_unix_nano'') ''end_time_unix_nano'' = Inr (i6, s6)"
    by blast
  have 7: "GetArgAs_IntIR g (args ''kind'') ''kind'' = Inr (k, v)"
    using assms(9,10) by (rule GetArgAs_IntIR_ok)
  show ?thesis
    using assms(11,13)
    by (simp add: OTelSpanDefinition_def ParseEndpointConfig_def assms(1,12) 0 1 2 3 4 5 6 7)
qed

lemma Metric_length_mismatch_aborts:
  assumes "args ''data'' = OTelMetricDataObject pb columns"
    and "args ''endpoint'' = EndpointConfigObject u a"
    and "is_string_arg g (args ''name'')" "is_string_arg g (args ''description'')"
    and "args ''attributes'' = DictObject keys vals" and "length vals \<noteq> length keys"
  shows "OTelMetricDefinition g args = Inl CheckFailure"
proof -
  from GetArgAsString_ok [of g args "''name''", OF assms(3)] obtain s0 where
    0: "GetArgAsString g args ''name'' = Inr s0" by blast
  from GetArgAsString_ok [of g args "''description''", OF assms(4)] obtain s1 where
    1: "GetArgAsString g args ''description'' = Inr s1" by blast
  show ?thesis
    using assms(6)
    by (simp add: OTelMetricDefinition_def ParseEndpointConfig_def assms(1,2,5) 0 1)
qed

lemma Summary_length_mismatch_aborts:
  assumes "is_string_arg g (args ''count'')" "is_string_arg g (args ''sum'')"
    and "args ''quantile_values'' = DictObject keys vals" and "length vals \<noteq> length keys"
  shows "OTelSummaryDefinition fmt g args = Inl CheckFailure"
proof -
  from GetArgAs_StringIR_ok [OF assms(1)] obtain i0 s0 where
    0: "GetArgAs_StringIR g (args ''count'') ''count'' = Inr (i0, s0)" by blast
  from GetArgAs_StringIR_ok [OF assms(2)] obtain i1 s1 where
    1: "GetArgAs_StringIR g (args ''sum'') ''sum'' = Inr (i1, s1)" by blast
  show ?thesis
    using assms(4) by (simp add: OTelSummaryDefinition_def assms(3) 0 1)
qed

lemma EndpointConfig_attributes_no_abort:
  "EndpointConfig_attributes g keys vals \<noteq> Inl CheckFailure"
proof (induction keys arbitrary: vals)
  case Nil
  then show ?case by simp
next
  case (Cons key keys)
  show ?case
    using Cons.IH GetArgAs_StringIR_error
    by (auto split: sum.splits prod.splits list.splits)
qed

lemma EndpointConfigConstructor_never_aborts:
  "EndpointConfigConstructor g args \<noteq> Inl CheckFailure"
  using EndpointConfig_attributes_no_abort GetArgAsString_error
  by (auto simp: EndpointConfigConstructor_def split: sum.splits QLObject.splits)

text \<open>
  C7. A length mismatch between the keys and the values of a dictionary is to abort
  in every OTel builder that reads one. \<^verbatim>\<open>EndpointConfigConstructor\<close> does not: with
  no key and one value it returns an endpoint configuration without attributes, and
  with one key and no value it indexes the empty vector of values.
\<close>

theorem EndpointConfigConstructor_length_mismatch:
  "EndpointConfigConstructor
      [Some (StringIR ''http://collector''), Some (StringIR ''v'')]
      ((\<lambda>_. NoneObject)(''url'' := ExprObject 0, ''attributes'' := DictObject [] [ExprObject 1]))
     = Inr (EndpointConfigObject ''http://collector'' [])
   \<and> EndpointConfigConstructor
      [Some (StringIR ''http://collector''), Some (StringIR ''v'')]
      ((\<lambda>_. NoneObject)(''url'' := ExprObject 0, ''attributes'' := DictObject [ExprObject 1] []))
     = Inl OutOfRange"
  by (simp add: EndpointConfigConstructor_def GetArgAsString_def GetArgAs_StringIR_def Get_def)

end
